theory Spec2Isabelle
  imports Main "HOL-Library.Sublist"
begin

unbundle bit_operations_syntax

section \<open>Python built-ins used by the driver\<close>

subsection \<open>\<^verbatim>\<open>str(int)\<close> and \<^verbatim>\<open>int(str)\<close>\<close>

text \<open>
  Python integers are unbounded, so they are \<^typ>\<open>int\<close>. \<^verbatim>\<open>str(i)\<close> is the decimal
  numeral of \<open>i\<close>, with a leading minus sign for a negative number.
\<close>

definition digit_char :: "nat \<Rightarrow> char" where
  "digit_char d = ''0123456789'' ! d"

definition digit_val :: "char \<Rightarrow> nat option" where
  "digit_val c = map_of (zip ''0123456789'' [0..<10]) c"

fun digits_nat :: "nat \<Rightarrow> string" where
  "digits_nat n =
     (if n < 10 then [digit_char n]
      else digits_nat (n div 10) @ [digit_char (n mod 10)])"

declare digits_nat.simps [simp del]

definition str_int :: "int \<Rightarrow> string" where
  "str_int i = (if i < 0 then CHR ''-'' # digits_nat (nat (- i)) else digits_nat (nat i))"

text \<open>
  \<^verbatim>\<open>int(s)\<close> on a string: an optional sign followed by at least one decimal digit.
  Every other text is \<open>None\<close>, Python's ValueError. (Python also accepts surrounding
  white space and underscores between digits; the instrument never answers in that form,
  and such texts are treated as errors here.)
\<close>

fun parse_digits :: "nat \<Rightarrow> string \<Rightarrow> nat option" where
  "parse_digits acc [] = Some acc"
| "parse_digits acc (c # cs) =
     (case digit_val c of None \<Rightarrow> None | Some d \<Rightarrow> parse_digits (10 * acc + d) cs)"

definition parse_nat :: "string \<Rightarrow> nat option" where
  "parse_nat s = (if s = [] then None else parse_digits 0 s)"

definition py_int :: "string \<Rightarrow> int option" where
  "py_int s =
     (case s of
        [] \<Rightarrow> None
      | c # cs \<Rightarrow>
          if c = CHR ''-'' then map_option (\<lambda>n. - int n) (parse_nat cs)
          else if c = CHR ''+'' then map_option int (parse_nat cs)
          else map_option int (parse_nat s))"

subsection \<open>\<^verbatim>\<open>a in b\<close> on strings and \<^verbatim>\<open>str.split\<close>\<close>

text \<open>\<^verbatim>\<open>a in b\<close> for two strings: \<open>a\<close> occurs in \<open>b\<close> as a contiguous piece.\<close>

fun py_in :: "string \<Rightarrow> string \<Rightarrow> bool" where
  "py_in a [] = (a = [])"
| "py_in a (c # cs) = (take (length a) (c # cs) = a \<or> py_in a cs)"

text \<open>\<^verbatim>\<open>s.split(sep)\<close> for a separator of one character.\<close>

fun split_on :: "char \<Rightarrow> string \<Rightarrow> string list" where
  "split_on sep [] = [[]]"
| "split_on sep (c # cs) =
     (if c = sep then [] # split_on sep cs
      else (case split_on sep cs of [] \<Rightarrow> [[c]] | t # ts \<Rightarrow> (c # t) # ts))"

section \<open>The instrument bus and the console\<close>

text \<open>
  The driver talks to a pyvisa resource (\<^verbatim>\<open>self._bus\<close>) and prints warnings on the
  console. Both are outside the repository. They are modelled by one state: a register
  store standing for the instrument, the answers the instrument will give, and a trace
  of everything the driver sent or printed, in order.
\<close>

datatype event =
    Write string    \<comment> \<open>\<^verbatim>\<open>bus.write(cmd)\<close>\<close>
  | Query string    \<comment> \<open>\<^verbatim>\<open>bus.query(cmd)\<close>\<close>
  | WaitSRQ nat     \<comment> \<open>\<^verbatim>\<open>bus.wait_for_srq(timeout)\<close>\<close>
  | Print string    \<comment> \<open>\<^verbatim>\<open>print(text)\<close>\<close>

datatype error = VisaIOError | ValueError | TypeError | ZeroDivisionError

record 'a world =
  ptr_reg :: int                \<comment> \<open>operation status, positive transition filter\<close>
  ntr_reg :: int                \<comment> \<open>operation status, negative transition filter\<close>
  enab_reg :: int               \<comment> \<open>operation status, enable register\<close>
  sre_reg :: int                \<comment> \<open>service request enable register\<close>
  oper_event :: int              \<comment> \<open>operation status, event register (cleared by reading)\<close>
  srq_event :: "int option"     \<comment> \<open>\<open>None\<close>: no service request arrives in time;
                                    \<open>Some e\<close>: it arrives, the event register then holds \<open>e\<close>\<close>
  reply :: "string \<Rightarrow> string"    \<comment> \<open>the instrument's answer to every other query\<close>
  trace :: "event list"
  trig_sense :: string          \<comment> \<open>\<^verbatim>\<open>self.trig._trig['sense']\<close>\<close>
  log_integration_time :: string \<comment> \<open>\<^verbatim>\<open>self._log['integration_time']\<close>\<close>
  log_sample_points :: string    \<comment> \<open>\<^verbatim>\<open>self._log['sample_points']\<close>\<close>
  log_data :: "string \<rightharpoonup> 'a"     \<comment> \<open>\<^verbatim>\<open>self.log_data\<close>\<close>

definition py_print :: "string \<Rightarrow> 'a world \<Rightarrow> 'a world" where
  "py_print s w = w\<lparr>trace := trace w @ [Print s]\<rparr>"

text \<open>A command line is a header, then a space and an argument when there is one.\<close>

definition scpi_split :: "string \<Rightarrow> string \<times> string" where
  "scpi_split cmd =
     (takeWhile (\<lambda>c. c \<noteq> CHR '' '') cmd, drop 1 (dropWhile (\<lambda>c. c \<noteq> CHR '' '') cmd))"

definition instr_set :: "string \<Rightarrow> int \<Rightarrow> 'a world \<Rightarrow> 'a world" where
  "instr_set h v w =
     (if h = '':STAT:OPER:PTR'' then w\<lparr>ptr_reg := v\<rparr>
      else if h = '':STAT:OPER:NTR'' then w\<lparr>ntr_reg := v\<rparr>
      else if h = '':STAT:OPER:ENAB'' then w\<lparr>enab_reg := v\<rparr>
      else if h = ''*SRE'' then w\<lparr>sre_reg := v\<rparr>
      else w)"

text \<open>What a command line does to the register store: a numeric argument is stored.\<close>

definition instr_apply :: "string \<Rightarrow> 'a world \<Rightarrow> 'a world" where
  "instr_apply cmd w =
     (case py_int (snd (scpi_split cmd)) of
        None \<Rightarrow> w
      | Some v \<Rightarrow> instr_set (fst (scpi_split cmd)) v w)"

definition bus_write :: "string \<Rightarrow> 'a world \<Rightarrow> 'a world" where
  "bus_write cmd w = instr_apply cmd (w\<lparr>trace := trace w @ [Write cmd]\<rparr>)"

definition bus_query :: "string \<Rightarrow> 'a world \<Rightarrow> string \<times> 'a world" where
  "bus_query q w =
     (let w' = w\<lparr>trace := trace w @ [Query q]\<rparr>
      in if q = '':STAT:OPER:PTR?'' then (str_int (ptr_reg w), w')
         else if q = '':STAT:OPER:NTR?'' then (str_int (ntr_reg w), w')
         else if q = '':STAT:OPER:ENAB?'' then (str_int (enab_reg w), w')
         else if q = ''*SRE?'' then (str_int (sre_reg w), w')
         else if q = ''STAT:OPER?'' then (str_int (oper_event w), w'\<lparr>oper_event := 0\<rparr>)
         else (reply w q, w'))"

text \<open>\<^verbatim>\<open>bus.wait_for_srq(timeout)\<close> raises VisaIOError when no request arrives in time.\<close>

definition wait_for_srq :: "nat \<Rightarrow> 'a world \<Rightarrow> (error + unit) \<times> 'a world" where
  "wait_for_srq timeout w =
     (let w' = w\<lparr>trace := trace w @ [WaitSRQ timeout]\<rparr>
      in case srq_event w of
           None \<Rightarrow> (Inl VisaIOError, w')
         | Some e \<Rightarrow> (Inr (), w'\<lparr>oper_event := e\<rparr>))"

section \<open>Validation\<close>

text \<open>
  A validator returns the text to send, or an exception object (returned, not raised).
  The values checked here are Python integers, so the TypeError branch of
  \<^verbatim>\<open>int_rng_tuple\<close> (taken when \<^verbatim>\<open>isinstance(value, int)\<close> fails) has no input.
\<close>

datatype validation = Valid string | ValueError_obj string | TypeError_obj string

definition str_tuple2 :: "int \<times> int \<Rightarrow> string" where
  "str_tuple2 t = ''('' @ str_int (fst t) @ '', '' @ str_int (snd t) @ '')''"

definition int_range :: "int \<Rightarrow> int \<times> int \<Rightarrow> bool" where
  "int_range x y = (fst y \<le> x \<and> x < snd y + 1)"

definition int_rng_tuple :: "int \<times> int \<Rightarrow> int \<Rightarrow> validation" where
  "int_rng_tuple validation_set val =
     (if int_range val validation_set then Valid (str_int val)
      else ValueError_obj (''ValueError!'' @ [CHR 0x0A] @ ''Not in range:(int) ''
                             @ str_tuple2 validation_set))"

definition register_8 :: "int \<Rightarrow> validation" where
  "register_8 val = int_rng_tuple (0, 128) val"

definition register_16 :: "int \<Rightarrow> validation" where
  "register_16 val = int_rng_tuple (0, 32767) val"

text \<open>\<^verbatim>\<open>error_text('WARNING', e)\<close>: the text of \<open>e\<close> between two ANSI escape sequences.\<close>

definition error_text_WARNING :: "string \<Rightarrow> string" where
  "error_text_WARNING msg = (CHR 0x1B # ''[93m'') @ msg @ (CHR 0x1B # ''[0m'')"

section \<open>Command, Status, Common, Trigger\<close>

text \<open>
  \<^verbatim>\<open>Command.read_write(query, write, validator, value)\<close>, for the callers that pass no
  \<^verbatim>\<open>value_dict\<close> (all register accessors). The result is the answer to the query when
  \<open>value\<close> is \<open>None\<close>, and \<open>None\<close> otherwise.
\<close>

definition read_write ::
  "string \<Rightarrow> string \<Rightarrow> (int \<Rightarrow> validation) option \<Rightarrow> int option \<Rightarrow> 'a world
     \<Rightarrow> string option \<times> 'a world" where
  "read_write query write validator val w =
     (case val of
        None \<Rightarrow> (Some (fst (bus_query query w)), snd (bus_query query w))
      | Some v \<Rightarrow>
          (case validator of
             Some f \<Rightarrow>
               (case f v of
                  Valid _ \<Rightarrow> (None, bus_write (write @ '' '' @ str_int v) w)
                | ValueError_obj m \<Rightarrow> (None, py_print (error_text_WARNING m) w)
                | TypeError_obj m \<Rightarrow> (None, py_print (error_text_WARNING m) w))
           | None \<Rightarrow> (None, bus_write (write @ '' '' @ str_int v) w)))"

definition get_opr_event_reg :: "'a world \<Rightarrow> string \<times> 'a world" where
  "get_opr_event_reg w = bus_query ''STAT:OPER?'' w"

definition opr_enable_reg :: "int option \<Rightarrow> 'a world \<Rightarrow> string option \<times> 'a world" where
  "opr_enable_reg reg_value w =
     read_write '':STAT:OPER:ENAB?'' '':STAT:OPER:ENAB'' (Some register_16) reg_value w"

definition opr_ptr_reg :: "int option \<Rightarrow> 'a world \<Rightarrow> string option \<times> 'a world" where
  "opr_ptr_reg reg_value w =
     read_write '':STAT:OPER:PTR?'' '':STAT:OPER:PTR'' (Some register_16) reg_value w"

definition opr_ntr_reg :: "int option \<Rightarrow> 'a world \<Rightarrow> string option \<times> 'a world" where
  "opr_ntr_reg reg_value w =
     read_write '':STAT:OPER:NTR?'' '':STAT:OPER:NTR'' (Some register_16) reg_value w"

definition sre :: "int option \<Rightarrow> 'a world \<Rightarrow> string option \<times> 'a world" where
  "sre reg_value w = read_write ''*SRE?'' ''*SRE'' (Some register_8) reg_value w"

definition wait :: "'a world \<Rightarrow> 'a world" where
  "wait w = bus_write ''*WAI'' w"

definition generate_bus_trig :: "'a world \<Rightarrow> 'a world" where
  "generate_bus_trig w = bus_write ''TRIG:ACQ'' w"

definition initialize_meas_trig :: "'a world \<Rightarrow> 'a world" where
  "initialize_meas_trig w = bus_write ''INIT:NAME ACQ'' w"

section \<open>numpy\<close>

text \<open>
  The sample arrays are numpy arrays of floating-point numbers. Their type and the two
  numpy expressions that build them are parameters of the model:
  \<^item> \<open>np_array_f toks\<close> is \<^verbatim>\<open>np.array(toks, dtype='f')\<close> on a list of strings;
  \<^item> \<open>np_arange_secs t n\<close> is \<^verbatim>\<open>np.arange(0, float(t) * float(n), float(t))\<close>.

  Each is \<open>Inl\<close> the exception when Python raises (a token that is no number, a zero step).
  Floating-point arithmetic itself is not modelled.
\<close>

record 'a numpy =
  np_array_f :: "string list \<Rightarrow> error + 'a"
  np_arange_secs :: "string \<Rightarrow> string \<Rightarrow> error + 'a"

section \<open>Log.start_meas_sample\<close>

definition wait_for_trig :: int where
  "wait_for_trig = 32"

definition sre_status_bit :: int where
  "sre_status_bit = 128"

text \<open>\<^verbatim>\<open>int(x)\<close> on the result of an accessor: a string, or \<^verbatim>\<open>None\<close> (a TypeError).\<close>

definition int_of_result :: "string option \<Rightarrow> error + int" where
  "int_of_result r =
     (case r of
        None \<Rightarrow> Inl TypeError
      | Some s \<Rightarrow> (case py_int s of None \<Rightarrow> Inl ValueError | Some i \<Rightarrow> Inr i))"

text \<open>
  The body of \<^verbatim>\<open>start_meas_sample\<close> (lines 456 to 527 of the source) in pieces, in
  the order of the source. Lines 457 to 463: empty \<^verbatim>\<open>log_data\<close>, read the event register
  to clear it, and save the three registers.
\<close>

definition save_registers :: "'a world \<Rightarrow> (error + int \<times> int \<times> int) \<times> 'a world" where
  "save_registers w =
     (let w1 = w\<lparr>log_data := Map.empty\<rparr>;
          w2 = snd (get_opr_event_reg w1);
          r_ptr = opr_ptr_reg None w2
      in case int_of_result (fst r_ptr) of
           Inl e \<Rightarrow> (Inl e, snd r_ptr)
         | Inr opr_ptr \<Rightarrow>
             (let r_ntr = opr_ntr_reg None (snd r_ptr)
              in case int_of_result (fst r_ntr) of
                   Inl e \<Rightarrow> (Inl e, snd r_ntr)
                 | Inr opr_ntr \<Rightarrow>
                     (let r_enable = opr_enable_reg None (snd r_ntr)
                      in case int_of_result (fst r_enable) of
                           Inl e \<Rightarrow> (Inl e, snd r_enable)
                         | Inr opr_enable \<Rightarrow>
                             (Inr (opr_ptr, opr_ntr, opr_enable), snd r_enable))))"

text \<open>
  Lines 475 to 481: remove the WTG bit from PTR if present; add it to NTR if not present.
  A Python integer is true when it is not zero.
\<close>

definition set_edge_filters :: "int \<Rightarrow> int \<Rightarrow> 'a world \<Rightarrow> 'a world" where
  "set_edge_filters opr_ptr opr_ntr w =
     (let w1 = (if opr_ptr AND wait_for_trig \<noteq> 0
                then snd (opr_ptr_reg (Some (opr_ptr - wait_for_trig)) w) else w)
      in if \<not> (opr_ntr AND wait_for_trig \<noteq> 0)
         then snd (opr_ntr_reg (Some (opr_ntr + wait_for_trig)) w1) else w1)"

text \<open>
  Lines 483 to 496: set the enable register, enable the service request, wait for the
  pending commands, initialise the measurement trigger and, when asked, trigger over the
  bus.
\<close>

definition arm_trigger :: "bool \<Rightarrow> 'a world \<Rightarrow> 'a world" where
  "arm_trigger bus_triggered w =
     (let w1 = snd (opr_enable_reg (Some wait_for_trig) w);
          w2 = snd (sre (Some sre_status_bit) w1);
          w3 = wait w2;
          w4 = initialize_meas_trig w3
      in if bus_triggered then generate_bus_trig w4 else w4)"

text \<open>
  One branch of the fetch (lines 505 to 507, 509 to 511, 513 to 515): query the array,
  parse it, store it under \<open>key\<close>.
\<close>

definition fetch_array ::
  "('a, 'n) numpy_scheme \<Rightarrow> string \<Rightarrow> string \<Rightarrow> 'a world \<Rightarrow> (error + unit) \<times> 'a world" where
  "fetch_array np q key w =
     (let r = bus_query q w
      in case np_array_f np (split_on CHR '','' (fst r)) of
           Inl e \<Rightarrow> (Inl e, snd r)
         | Inr arr \<Rightarrow> (Inr (), (snd r)\<lparr>log_data := (log_data (snd r))(key \<mapsto> arr)\<rparr>))"

text \<open>
  Lines 502 to 522: read the event register. With the WTG bit set the data is fetched,
  by the configured sense, and the time axis is added; otherwise a message is printed.
\<close>

definition fetch_data :: "('a, 'n) numpy_scheme \<Rightarrow> 'a world \<Rightarrow> (error + unit) \<times> 'a world" where
  \<open>fetch_data np w =
     (let r = get_opr_event_reg w
      in case py_int (fst r) of
           None \<Rightarrow> (Inl ValueError, snd r)
         | Some event_reg \<Rightarrow>
             if event_reg AND wait_for_trig \<noteq> 0 then
               (case (if py_in (trig_sense (snd r)) ''"CURR"''
                        then fetch_array np ''FETC:ARR:CURR?'' ''current'' (snd r)
                      else if py_in (trig_sense (snd r)) ''"VOLT"''
                        then fetch_array np ''FETC:ARR:VOLT?'' ''voltage'' (snd r)
                      else fetch_array np ''FETC:ARR:DVM?'' ''voltage'' (snd r)) of
                  (Inl e, w1) \<Rightarrow> (Inl e, w1)
                | (Inr _, w1) \<Rightarrow>
                    (case np_arange_secs np (log_integration_time w1) (log_sample_points w1) of
                       Inl e \<Rightarrow> (Inl e, w1)
                     | Inr secs \<Rightarrow>
                         (Inr (), w1\<lparr>log_data := (log_data w1)(''seconds'' \<mapsto> secs)\<rparr>)))
             else (Inr (), py_print (''Unknown error: event reg '' @ str_int event_reg) (snd r)))\<close>

text \<open>Lines 524 to 527: write the three saved values back.\<close>

definition restore_registers :: "int \<Rightarrow> int \<Rightarrow> int \<Rightarrow> 'a world \<Rightarrow> 'a world" where
  "restore_registers opr_ptr opr_ntr opr_enable w =
     (let w1 = snd (opr_ptr_reg (Some opr_ptr) w);
          w2 = snd (opr_ntr_reg (Some opr_ntr) w1)
      in snd (opr_enable_reg (Some opr_enable) w2))"

text \<open>
  The whole method; the wait for the service request and the reset of its enable
  register are lines 498 to 500. The method returns nothing (\<^verbatim>\<open>None\<close>): its result is
  the \<^verbatim>\<open>log_data\<close> of the final state. An exception leaves at the point where it is
  raised, with the state reached there.
\<close>

definition start_meas_sample ::
  "('a, 'n) numpy_scheme \<Rightarrow> bool \<Rightarrow> 'a world \<Rightarrow> (error + unit) \<times> 'a world" where
  "start_meas_sample np bus_triggered w =
     (case save_registers w of
        (Inl e, w1) \<Rightarrow> (Inl e, w1)
      | (Inr (opr_ptr, opr_ntr, opr_enable), w1) \<Rightarrow>
          (let w2 = arm_trigger bus_triggered (set_edge_filters opr_ptr opr_ntr w1)
           in case wait_for_srq 10000 w2 of
                (Inl e, w3) \<Rightarrow> (Inl e, w3)
              | (Inr _, w3) \<Rightarrow>
                  (case fetch_data np (snd (sre (Some 0) w3)) of
                     (Inl e, w4) \<Rightarrow> (Inl e, w4)
                   | (Inr _, w4) \<Rightarrow>
                       (Inr (), restore_registers opr_ptr opr_ntr opr_enable w4))))"

section \<open>States reached during a run, and the events a run emits\<close>

text \<open>The state in which \<^verbatim>\<open>wait_for_srq\<close> is called.\<close>

definition armed :: "bool \<Rightarrow> 'a world \<Rightarrow> 'a world" where
  "armed bus_triggered w =
     arm_trigger bus_triggered
       (set_edge_filters (ptr_reg w) (ntr_reg w) (snd (save_registers w)))"

text \<open>The state after the service request arrived and the event register was read.\<close>

definition polled :: "bool \<Rightarrow> 'a world \<Rightarrow> 'a world" where
  "polled bus_triggered w =
     snd (get_opr_event_reg
            (snd (sre (Some 0) (snd (wait_for_srq 10000 (armed bus_triggered w))))))"

text \<open>
  The events of each step, written out. A call of a 16-bit register accessor with a
  value emits one event: the write, or the warning of the validator.
\<close>

definition warning_16 :: string where
  "warning_16 =
     CHR 0x1B # ''[93mValueError!'' @ CHR 0x0A # ''Not in range:(int) (0, 32767)''
       @ CHR 0x1B # ''[0m''"

definition reg16_events :: "string \<Rightarrow> int \<Rightarrow> event list" where
  "reg16_events hdr v =
     (if 0 \<le> v \<and> v \<le> 32767 then [Write (hdr @ '' '' @ str_int v)] else [Print warning_16])"

definition save_events :: "event list" where
  "save_events =
     [Query ''STAT:OPER?'', Query '':STAT:OPER:PTR?'', Query '':STAT:OPER:NTR?'',
      Query '':STAT:OPER:ENAB?'']"

definition filter_events :: "int \<Rightarrow> int \<Rightarrow> event list" where
  "filter_events p n =
     (if p AND 32 \<noteq> 0 then reg16_events '':STAT:OPER:PTR'' (p - 32) else [])
     @ (if n AND 32 = 0 then reg16_events '':STAT:OPER:NTR'' (n + 32) else [])"

definition arm_events :: "bool \<Rightarrow> event list" where
  "arm_events bus_triggered =
     [Write '':STAT:OPER:ENAB 32'', Write ''*SRE 128'', Write ''*WAI'', Write ''INIT:NAME ACQ'']
     @ (if bus_triggered then [Write ''TRIG:ACQ''] else [])"

definition poll_events :: "event list" where
  "poll_events = [WaitSRQ 10000, Write ''*SRE 0'', Query ''STAT:OPER?'']"

definition restore_events :: "int \<Rightarrow> int \<Rightarrow> int \<Rightarrow> event list" where
  "restore_events p n e =
     reg16_events '':STAT:OPER:PTR'' p @ reg16_events '':STAT:OPER:NTR'' n
     @ reg16_events '':STAT:OPER:ENAB'' e"

text \<open>The fetch query and the result key chosen for a sense, as the three branches do.\<close>

definition fetch_query :: "string \<Rightarrow> string" where
  \<open>fetch_query sense =
     (if py_in sense ''"CURR"'' then ''FETC:ARR:CURR?''
      else if py_in sense ''"VOLT"'' then ''FETC:ARR:VOLT?''
      else ''FETC:ARR:DVM?'')\<close>

definition fetch_key :: "string \<Rightarrow> string" where
  \<open>fetch_key sense =
     (if py_in sense ''"CURR"'' then ''current''
      else if py_in sense ''"VOLT"'' then ''voltage''
      else ''voltage'')\<close>

text \<open>
  The events from the write of the enable register up to, but not including, the
  restoration, in a run in which the service request arrived with event register \<open>e\<close>
  and the fetched data, if any, was accepted by numpy.
\<close>

definition window_events :: "bool \<Rightarrow> int \<Rightarrow> string \<Rightarrow> event list" where
  "window_events bus_triggered e sense =
     arm_events bus_triggered @ poll_events
     @ [if e AND 32 \<noteq> 0 then Query (fetch_query sense)
        else Print (''Unknown error: event reg '' @ str_int e)]"

text \<open>The events a run added to the trace.\<close>

definition run_events ::
  "('a, 'n) numpy_scheme \<Rightarrow> bool \<Rightarrow> 'a world \<Rightarrow> event list" where
  "run_events np bus_triggered w =
     drop (length (trace w)) (trace (snd (start_meas_sample np bus_triggered w)))"

text \<open>
  The register store after a list of events: only writes change it, as \<open>bus_write\<close>
  does.
\<close>

fun event_effect :: "event \<Rightarrow> 'a world \<Rightarrow> 'a world" where
  "event_effect (Write cmd) w = instr_apply cmd w"
| "event_effect (Query q) w = w"
| "event_effect (WaitSRQ t) w = w"
| "event_effect (Print s) w = w"

definition replay :: "event list \<Rightarrow> 'a world \<Rightarrow> 'a world" where
  "replay evs w = fold event_effect evs w"

text \<open>The argument of a write to the register \<open>hdr\<close>, for other events \<open>None\<close>.\<close>

fun written_to :: "string \<Rightarrow> event \<Rightarrow> string option" where
  "written_to hdr (Write cmd) =
     (if fst (scpi_split cmd) = hdr then Some (snd (scpi_split cmd)) else None)"
| "written_to hdr (Query q) = None"
| "written_to hdr (WaitSRQ t) = None"
| "written_to hdr (Print s) = None"

section \<open>Example inputs\<close>

text \<open>
  A stand-in for numpy that keeps the texts: an array is the list of its tokens, the
  time axis is the pair of its two arguments.
\<close>

definition text_np :: "(string list) numpy" where
  "text_np = \<lparr>np_array_f = Inr, np_arange_secs = (\<lambda>t n. Inr [t, n])\<rparr>"

text \<open>A stand-in for numpy on which every array construction fails.\<close>

definition failing_np :: "(string list) numpy" where
  "failing_np = \<lparr>np_array_f = (\<lambda>toks. Inl ValueError), np_arange_secs = (\<lambda>t n. Inl ValueError)\<rparr>"

text \<open>
  An instrument with the given registers, service request and sense, that answers
  every fetch with three samples; five points at 2 ms are configured.
\<close>

definition example_world ::
  "int \<Rightarrow> int \<Rightarrow> int \<Rightarrow> int option \<Rightarrow> string \<Rightarrow> (string list) world" where
  "example_world p n e srq sense =
     \<lparr>ptr_reg = p, ntr_reg = n, enab_reg = e, sre_reg = 0, oper_event = 0,
      srq_event = srq, reply = (\<lambda>q. ''1.0,2.5,-3.25''), trace = [],
      trig_sense = sense, log_integration_time = ''0.002'', log_sample_points = ''5'',
      log_data = Map.empty\<rparr>"

named_theorems fields \<open>what each step does to each field of the state\<close>

section \<open>Properties of the built-ins\<close>

lemma parse_digits_snoc:
  "parse_digits acc (xs @ [c]) =
     (case parse_digits acc xs of
        None \<Rightarrow> None
      | Some a \<Rightarrow> (case digit_val c of None \<Rightarrow> None | Some d \<Rightarrow> Some (10 * a + d)))"
  by (induction xs arbitrary: acc) (auto split: option.splits)

lemma upt_10: "[0..<10] = [0, 1, 2, 3, 4, 5, 6, 7, 8, 9]"
  by (simp add: upt_rec)

lemma digit_val_char: "d < 10 \<Longrightarrow> digit_val (digit_char d) = Some d"
proof -
  assume "d < 10"
  then have "d \<in> {0, 1, 2, 3, 4, 5, 6, 7, 8, 9}" by auto
  then show ?thesis
    by (auto simp add: digit_val_def digit_char_def upt_10)
qed

lemma digit_char_plain:
  "d < 10 \<Longrightarrow>
   digit_char d \<noteq> CHR ''-'' \<and> digit_char d \<noteq> CHR ''+'' \<and> digit_char d \<noteq> CHR '' ''"
proof -
  assume "d < 10"
  then have "d \<in> {0, 1, 2, 3, 4, 5, 6, 7, 8, 9}" by auto
  then show ?thesis
    by (auto simp add: digit_char_def)
qed

lemma digits_nat_nonempty: "digits_nat n \<noteq> []"
  by (subst digits_nat.simps) simp

lemma parse_digits_digits_nat: "parse_digits 0 (digits_nat n) = Some n"
proof (induction n rule: digits_nat.induct)
  case (1 n)
  show ?case
  proof (cases "n < 10")
    case True
    then show ?thesis
      by (subst digits_nat.simps) (simp add: digit_val_char)
  next
    case False
    with 1 have "parse_digits 0 (digits_nat (n div 10)) = Some (n div 10)" by simp
    with False show ?thesis
      by (subst digits_nat.simps) (simp add: parse_digits_snoc digit_val_char)
  qed
qed

lemma digits_nat_plain:
  "c \<in> set (digits_nat n) \<Longrightarrow> c \<noteq> CHR ''-'' \<and> c \<noteq> CHR ''+'' \<and> c \<noteq> CHR '' ''"
proof (induction n rule: digits_nat.induct)
  case (1 n)
  show ?case
  proof (cases "n < 10")
    case True
    with 1(2) show ?thesis
      by (subst (asm) digits_nat.simps) (simp add: digit_char_plain)
  next
    case False
    with 1 show ?thesis
      by (subst (asm) (2) digits_nat.simps) (auto simp add: digit_char_plain)
  qed
qed

text \<open>Reading back a printed integer gives the integer.\<close>

lemma py_int_str_int: "py_int (str_int i) = Some i"
proof (cases "i < 0")
  case True
  then show ?thesis
    by (simp add: py_int_def str_int_def parse_nat_def digits_nat_nonempty
        parse_digits_digits_nat)
next
  case False
  obtain c cs where eq: "digits_nat (nat i) = c # cs"
    using digits_nat_nonempty [of "nat i"] by (cases "digits_nat (nat i)") auto
  then have "c \<in> set (digits_nat (nat i))" by simp
  then have "c \<noteq> CHR ''-'' \<and> c \<noteq> CHR ''+''" using digits_nat_plain by blast
  moreover have "parse_nat (c # cs) = Some (nat i)"
    using parse_digits_digits_nat [of "nat i"] eq by (simp add: parse_nat_def)
  ultimately show ?thesis using False eq
    by (simp add: py_int_def str_int_def)
qed

lemma py_int_Nil: "py_int [] = None"
  by (simp add: py_int_def)

lemma str_int_0: "str_int 0 = ''0''"
  by (simp add: str_int_def digits_nat.simps digit_char_def)

lemma str_int_32: "str_int 32 = ''32''"
  by (simp add: str_int_def digits_nat.simps digit_char_def)

lemma str_int_128: "str_int 128 = ''128''"
  by (simp add: str_int_def digits_nat.simps digit_char_def)

lemma str_tuple2_16: "str_tuple2 (0, 32767) = ''(0, 32767)''"
  by (simp add: str_tuple2_def str_int_def digits_nat.simps digit_char_def)

lemma str_tuple2_8: "str_tuple2 (0, 128) = ''(0, 128)''"
  by (simp add: str_tuple2_def str_int_def digits_nat.simps digit_char_def)

text \<open>\<open>py_in\<close> is the contiguous-sublist relation of the library.\<close>

lemma py_in_sublist: "py_in a b \<longleftrightarrow> sublist a b"
proof (induction b)
  case Nil
  then show ?case by simp
next
  case (Cons c cs)
  have "take (length a) (c # cs) = a \<longleftrightarrow> prefix a (c # cs)"
    by (metis prefix_def append_take_drop_id append_eq_conv_conj)
  with Cons show ?case
    by (auto simp add: sublist_Cons_right)
qed

section \<open>The bus\<close>

lemma scpi_split_arg:
  "CHR '' '' \<notin> set h \<Longrightarrow> scpi_split (h @ CHR '' '' # a) = (h, a)"
  by (induction h) (auto simp add: scpi_split_def)

lemma scpi_split_none:
  "CHR '' '' \<notin> set h \<Longrightarrow> scpi_split h = (h, [])"
  by (induction h) (auto simp add: scpi_split_def)

lemma instr_apply_arg:
  "CHR '' '' \<notin> set h \<Longrightarrow> instr_apply (h @ CHR '' '' # str_int v) w = instr_set h v w"
  by (simp add: instr_apply_def scpi_split_arg py_int_str_int)

lemma instr_apply_noarg:
  "CHR '' '' \<notin> set h \<Longrightarrow> instr_apply h w = w"
  by (simp add: instr_apply_def scpi_split_none py_int_Nil)

section \<open>Register accessors\<close>

lemma warning_16_text:
  "error_text_WARNING (''ValueError!'' @ [CHR 0x0A] @ ''Not in range:(int) '' @ str_tuple2 (0, 32767))
     = warning_16"
  by (simp add: error_text_WARNING_def warning_16_def str_tuple2_16)

lemma register_16_cases:
  "register_16 v =
     (if 0 \<le> v \<and> v \<le> 32767 then Valid (str_int v)
      else ValueError_obj (''ValueError!'' @ [CHR 0x0A] @ ''Not in range:(int) ''
                             @ str_tuple2 (0, 32767)))"
  by (simp add: register_16_def int_rng_tuple_def int_range_def)

lemma read_write_16:
  "CHR '' '' \<notin> set hdr \<Longrightarrow>
   snd (read_write q hdr (Some register_16) (Some v) w) =
     (if 0 \<le> v \<and> v \<le> 32767
      then instr_set hdr v (w\<lparr>trace := trace w @ [Write (hdr @ '' '' @ str_int v)]\<rparr>)
      else w\<lparr>trace := trace w @ [Print warning_16]\<rparr>)"
  using warning_16_text
  by (simp add: read_write_def register_16_cases bus_write_def instr_apply_arg py_print_def)

lemma read_write_16_trace:
  "CHR '' '' \<notin> set hdr \<Longrightarrow>
   trace (snd (read_write q hdr (Some register_16) (Some v) w)) = trace w @ reg16_events hdr v"
  by (simp add: read_write_16 reg16_events_def instr_set_def)

lemma opr_ptr_reg_set:
  "snd (opr_ptr_reg (Some v) w) =
     (if 0 \<le> v \<and> v \<le> 32767
      then w\<lparr>ptr_reg := v, trace := trace w @ [Write ('':STAT:OPER:PTR '' @ str_int v)]\<rparr>
      else w\<lparr>trace := trace w @ [Print warning_16]\<rparr>)"
  by (simp add: opr_ptr_reg_def read_write_16 instr_set_def)

lemma opr_ntr_reg_set:
  "snd (opr_ntr_reg (Some v) w) =
     (if 0 \<le> v \<and> v \<le> 32767
      then w\<lparr>ntr_reg := v, trace := trace w @ [Write ('':STAT:OPER:NTR '' @ str_int v)]\<rparr>
      else w\<lparr>trace := trace w @ [Print warning_16]\<rparr>)"
  by (simp add: opr_ntr_reg_def read_write_16 instr_set_def)

lemma opr_enable_reg_set:
  "snd (opr_enable_reg (Some v) w) =
     (if 0 \<le> v \<and> v \<le> 32767
      then w\<lparr>enab_reg := v, trace := trace w @ [Write ('':STAT:OPER:ENAB '' @ str_int v)]\<rparr>
      else w\<lparr>trace := trace w @ [Print warning_16]\<rparr>)"
  by (simp add: opr_enable_reg_def read_write_16 instr_set_def)

lemma accessor_set_result:
  "fst (opr_ptr_reg (Some v) w) = None"
  "fst (opr_ntr_reg (Some v) w) = None"
  "fst (opr_enable_reg (Some v) w) = None"
  by (simp_all add: opr_ptr_reg_def opr_ntr_reg_def opr_enable_reg_def read_write_def
      split: validation.splits)

lemma opr_ptr_reg_get:
  "opr_ptr_reg None w =
     (Some (str_int (ptr_reg w)), w\<lparr>trace := trace w @ [Query '':STAT:OPER:PTR?'']\<rparr>)"
  by (simp add: opr_ptr_reg_def read_write_def bus_query_def)

lemma opr_ntr_reg_get:
  "opr_ntr_reg None w =
     (Some (str_int (ntr_reg w)), w\<lparr>trace := trace w @ [Query '':STAT:OPER:NTR?'']\<rparr>)"
  by (simp add: opr_ntr_reg_def read_write_def bus_query_def)

lemma opr_enable_reg_get:
  "opr_enable_reg None w =
     (Some (str_int (enab_reg w)), w\<lparr>trace := trace w @ [Query '':STAT:OPER:ENAB?'']\<rparr>)"
  by (simp add: opr_enable_reg_def read_write_def bus_query_def)

lemma get_opr_event_reg_eq:
  "get_opr_event_reg w =
     (str_int (oper_event w), w\<lparr>trace := trace w @ [Query ''STAT:OPER?''], oper_event := 0\<rparr>)"
  by (simp add: get_opr_event_reg_def bus_query_def)

lemma opr_ptr_reg_fields [fields]:
  "trace (snd (opr_ptr_reg (Some v) w)) = trace w @ reg16_events '':STAT:OPER:PTR'' v"
  "ptr_reg (snd (opr_ptr_reg (Some v) w)) = (if 0 \<le> v \<and> v \<le> 32767 then v else ptr_reg w)"
  "ntr_reg (snd (opr_ptr_reg (Some v) w)) = ntr_reg w"
  "enab_reg (snd (opr_ptr_reg (Some v) w)) = enab_reg w"
  "sre_reg (snd (opr_ptr_reg (Some v) w)) = sre_reg w"
  "oper_event (snd (opr_ptr_reg (Some v) w)) = oper_event w"
  "srq_event (snd (opr_ptr_reg (Some v) w)) = srq_event w"
  "reply (snd (opr_ptr_reg (Some v) w)) = reply w"
  "trig_sense (snd (opr_ptr_reg (Some v) w)) = trig_sense w"
  "log_integration_time (snd (opr_ptr_reg (Some v) w)) = log_integration_time w"
  "log_sample_points (snd (opr_ptr_reg (Some v) w)) = log_sample_points w"
  "log_data (snd (opr_ptr_reg (Some v) w)) = log_data w"
  by (simp_all add: opr_ptr_reg_set reg16_events_def)

lemma opr_ntr_reg_fields [fields]:
  "trace (snd (opr_ntr_reg (Some v) w)) = trace w @ reg16_events '':STAT:OPER:NTR'' v"
  "ptr_reg (snd (opr_ntr_reg (Some v) w)) = ptr_reg w"
  "ntr_reg (snd (opr_ntr_reg (Some v) w)) = (if 0 \<le> v \<and> v \<le> 32767 then v else ntr_reg w)"
  "enab_reg (snd (opr_ntr_reg (Some v) w)) = enab_reg w"
  "sre_reg (snd (opr_ntr_reg (Some v) w)) = sre_reg w"
  "oper_event (snd (opr_ntr_reg (Some v) w)) = oper_event w"
  "srq_event (snd (opr_ntr_reg (Some v) w)) = srq_event w"
  "reply (snd (opr_ntr_reg (Some v) w)) = reply w"
  "trig_sense (snd (opr_ntr_reg (Some v) w)) = trig_sense w"
  "log_integration_time (snd (opr_ntr_reg (Some v) w)) = log_integration_time w"
  "log_sample_points (snd (opr_ntr_reg (Some v) w)) = log_sample_points w"
  "log_data (snd (opr_ntr_reg (Some v) w)) = log_data w"
  by (simp_all add: opr_ntr_reg_set reg16_events_def)

lemma opr_enable_reg_fields [fields]:
  "trace (snd (opr_enable_reg (Some v) w)) = trace w @ reg16_events '':STAT:OPER:ENAB'' v"
  "ptr_reg (snd (opr_enable_reg (Some v) w)) = ptr_reg w"
  "ntr_reg (snd (opr_enable_reg (Some v) w)) = ntr_reg w"
  "enab_reg (snd (opr_enable_reg (Some v) w)) = (if 0 \<le> v \<and> v \<le> 32767 then v else enab_reg w)"
  "sre_reg (snd (opr_enable_reg (Some v) w)) = sre_reg w"
  "oper_event (snd (opr_enable_reg (Some v) w)) = oper_event w"
  "srq_event (snd (opr_enable_reg (Some v) w)) = srq_event w"
  "reply (snd (opr_enable_reg (Some v) w)) = reply w"
  "trig_sense (snd (opr_enable_reg (Some v) w)) = trig_sense w"
  "log_integration_time (snd (opr_enable_reg (Some v) w)) = log_integration_time w"
  "log_sample_points (snd (opr_enable_reg (Some v) w)) = log_sample_points w"
  "log_data (snd (opr_enable_reg (Some v) w)) = log_data w"
  by (simp_all add: opr_enable_reg_set reg16_events_def)

lemma register_8_cases:
  "register_8 v =
     (if 0 \<le> v \<and> v \<le> 128 then Valid (str_int v)
      else ValueError_obj (''ValueError!'' @ [CHR 0x0A] @ ''Not in range:(int) ''
                             @ str_tuple2 (0, 128)))"
  by (simp add: register_8_def int_rng_tuple_def int_range_def)

lemma bus_write_noarg:
  "CHR '' '' \<notin> set h \<Longrightarrow> bus_write h w = w\<lparr>trace := trace w @ [Write h]\<rparr>"
  by (simp add: bus_write_def instr_apply_noarg)

lemma read_write_8:
  "CHR '' '' \<notin> set hdr \<Longrightarrow> 0 \<le> v \<and> v \<le> 128 \<Longrightarrow>
   snd (read_write q hdr (Some register_8) (Some v) w) =
     instr_set hdr v (w\<lparr>trace := trace w @ [Write (hdr @ '' '' @ str_int v)]\<rparr>)"
  by (simp add: read_write_def register_8_cases bus_write_def instr_apply_arg)

lemma sre_set:
  "0 \<le> v \<and> v \<le> 128 \<Longrightarrow>
   snd (sre (Some v) w) = w\<lparr>sre_reg := v, trace := trace w @ [Write (''*SRE '' @ str_int v)]\<rparr>"
  by (simp add: sre_def read_write_8 instr_set_def)

lemma wait_eq: "wait w = w\<lparr>trace := trace w @ [Write ''*WAI'']\<rparr>"
  by (simp add: wait_def bus_write_noarg)

lemma py_int_ACQ: "py_int ''ACQ'' = None"
  by (simp add: py_int_def parse_nat_def digit_val_def upt_10)

lemma initialize_meas_trig_eq:
  "initialize_meas_trig w = w\<lparr>trace := trace w @ [Write ''INIT:NAME ACQ'']\<rparr>"
  by (simp add: initialize_meas_trig_def bus_write_def instr_apply_def scpi_split_def py_int_ACQ)

lemma generate_bus_trig_eq:
  "generate_bus_trig w = w\<lparr>trace := trace w @ [Write ''TRIG:ACQ'']\<rparr>"
  by (simp add: generate_bus_trig_def bus_write_noarg)

section \<open>The steps of a run\<close>

lemma int_of_result_str_int: "int_of_result (Some (str_int i)) = Inr i"
  by (simp add: int_of_result_def py_int_str_int)

lemma save_registers_eq:
  "save_registers w =
     (Inr (ptr_reg w, ntr_reg w, enab_reg w),
      w\<lparr>oper_event := 0, trace := trace w @ save_events, log_data := Map.empty\<rparr>)"
  by (simp add: save_registers_def get_opr_event_reg_eq opr_ptr_reg_get opr_ntr_reg_get
      opr_enable_reg_get int_of_result_str_int save_events_def Let_def)

lemma set_edge_filters_fields [fields]:
  "trace (set_edge_filters p n w) = trace w @ filter_events p n"
  "ptr_reg (set_edge_filters p n w) =
     (if p AND 32 \<noteq> 0 \<and> 0 \<le> p - 32 \<and> p - 32 \<le> 32767 then p - 32 else ptr_reg w)"
  "ntr_reg (set_edge_filters p n w) =
     (if n AND 32 = 0 \<and> 0 \<le> n + 32 \<and> n + 32 \<le> 32767 then n + 32 else ntr_reg w)"
  "enab_reg (set_edge_filters p n w) = enab_reg w"
  "sre_reg (set_edge_filters p n w) = sre_reg w"
  "oper_event (set_edge_filters p n w) = oper_event w"
  "srq_event (set_edge_filters p n w) = srq_event w"
  "reply (set_edge_filters p n w) = reply w"
  "trig_sense (set_edge_filters p n w) = trig_sense w"
  "log_integration_time (set_edge_filters p n w) = log_integration_time w"
  "log_sample_points (set_edge_filters p n w) = log_sample_points w"
  "log_data (set_edge_filters p n w) = log_data w"
  by (simp_all add: set_edge_filters_def wait_for_trig_def filter_events_def fields Let_def)

lemma arm_trigger_eq:
  "arm_trigger bt w = w\<lparr>enab_reg := 32, sre_reg := 128, trace := trace w @ arm_events bt\<rparr>"
  by (simp add: arm_trigger_def wait_for_trig_def sre_status_bit_def opr_enable_reg_set
      sre_set wait_eq initialize_meas_trig_eq generate_bus_trig_eq arm_events_def
      str_int_32 str_int_128 Let_def)

lemma restore_registers_fields [fields]:
  "trace (restore_registers p n e w) = trace w @ restore_events p n e"
  "ptr_reg (restore_registers p n e w) = (if 0 \<le> p \<and> p \<le> 32767 then p else ptr_reg w)"
  "ntr_reg (restore_registers p n e w) = (if 0 \<le> n \<and> n \<le> 32767 then n else ntr_reg w)"
  "enab_reg (restore_registers p n e w) = (if 0 \<le> e \<and> e \<le> 32767 then e else enab_reg w)"
  "sre_reg (restore_registers p n e w) = sre_reg w"
  "oper_event (restore_registers p n e w) = oper_event w"
  "srq_event (restore_registers p n e w) = srq_event w"
  "reply (restore_registers p n e w) = reply w"
  "trig_sense (restore_registers p n e w) = trig_sense w"
  "log_integration_time (restore_registers p n e w) = log_integration_time w"
  "log_sample_points (restore_registers p n e w) = log_sample_points w"
  "log_data (restore_registers p n e w) = log_data w"
  by (simp_all add: restore_registers_def restore_events_def fields Let_def)

lemma armed_fields [fields]:
  "trace (armed bt w) =
     trace w @ save_events @ filter_events (ptr_reg w) (ntr_reg w) @ arm_events bt"
  "ptr_reg (armed bt w) =
     (if ptr_reg w AND 32 \<noteq> 0 \<and> 0 \<le> ptr_reg w - 32 \<and> ptr_reg w - 32 \<le> 32767
      then ptr_reg w - 32 else ptr_reg w)"
  "ntr_reg (armed bt w) =
     (if ntr_reg w AND 32 = 0 \<and> 0 \<le> ntr_reg w + 32 \<and> ntr_reg w + 32 \<le> 32767
      then ntr_reg w + 32 else ntr_reg w)"
  "enab_reg (armed bt w) = 32"
  "sre_reg (armed bt w) = 128"
  "oper_event (armed bt w) = 0"
  "srq_event (armed bt w) = srq_event w"
  "reply (armed bt w) = reply w"
  "trig_sense (armed bt w) = trig_sense w"
  "log_integration_time (armed bt w) = log_integration_time w"
  "log_sample_points (armed bt w) = log_sample_points w"
  "log_data (armed bt w) = Map.empty"
  by (simp_all add: armed_def arm_trigger_eq save_registers_eq fields)

lemma wait_for_srq_armed_timeout:
  "srq_event w = None \<Longrightarrow>
   wait_for_srq 10000 (armed bt w) =
     (Inl VisaIOError, (armed bt w)\<lparr>trace := trace (armed bt w) @ [WaitSRQ 10000]\<rparr>)"
  by (simp add: wait_for_srq_def fields)

lemma wait_for_srq_armed_arrives:
  "srq_event w = Some e \<Longrightarrow>
   wait_for_srq 10000 (armed bt w) =
     (Inr (), (armed bt w)\<lparr>trace := trace (armed bt w) @ [WaitSRQ 10000], oper_event := e\<rparr>)"
  by (simp add: wait_for_srq_def fields)

lemma polled_fields [fields]:
  assumes "srq_event w = Some e"
  shows
  "trace (polled bt w) = trace (armed bt w) @ poll_events"
  "ptr_reg (polled bt w) = ptr_reg (armed bt w)"
  "ntr_reg (polled bt w) = ntr_reg (armed bt w)"
  "enab_reg (polled bt w) = 32"
  "sre_reg (polled bt w) = 0"
  "oper_event (polled bt w) = 0"
  "srq_event (polled bt w) = srq_event w"
  "reply (polled bt w) = reply w"
  "trig_sense (polled bt w) = trig_sense w"
  "log_integration_time (polled bt w) = log_integration_time w"
  "log_sample_points (polled bt w) = log_sample_points w"
  "log_data (polled bt w) = Map.empty"
  using assms
  by (simp_all add: polled_def wait_for_srq_armed_arrives sre_set get_opr_event_reg_eq
      poll_events_def str_int_0 fields)

lemma polled_event:
  "srq_event w = Some e \<Longrightarrow>
   fst (get_opr_event_reg (snd (sre (Some 0) (snd (wait_for_srq 10000 (armed bt w))))))
     = str_int e"
  by (simp add: wait_for_srq_armed_arrives sre_set get_opr_event_reg_eq)

lemma start_meas_sample_armed:
  "start_meas_sample np bt w =
     (case wait_for_srq 10000 (armed bt w) of
        (Inl e, w3) \<Rightarrow> (Inl e, w3)
      | (Inr _, w3) \<Rightarrow>
          (case fetch_data np (snd (sre (Some 0) w3)) of
             (Inl e, w4) \<Rightarrow> (Inl e, w4)
           | (Inr _, w4) \<Rightarrow>
               (Inr (), restore_registers (ptr_reg w) (ntr_reg w) (enab_reg w) w4)))"
  by (simp add: start_meas_sample_def save_registers_eq armed_def Let_def)

lemma run_timeout:
  "srq_event w = None \<Longrightarrow>
   start_meas_sample np bt w =
     (Inl VisaIOError, (armed bt w)\<lparr>trace := trace (armed bt w) @ [WaitSRQ 10000]\<rparr>)"
  by (simp add: start_meas_sample_armed wait_for_srq_armed_timeout)

lemma fetch_data_polled:
  "srq_event w = Some e \<Longrightarrow>
   fetch_data np (snd (sre (Some 0) (snd (wait_for_srq 10000 (armed bt w))))) =
     (if e AND 32 \<noteq> 0 then
        (case fetch_array np (fetch_query (trig_sense w)) (fetch_key (trig_sense w)) (polled bt w) of
           (Inl err, w1) \<Rightarrow> (Inl err, w1)
         | (Inr _, w1) \<Rightarrow>
             (case np_arange_secs np (log_integration_time w1) (log_sample_points w1) of
                Inl err \<Rightarrow> (Inl err, w1)
              | Inr secs \<Rightarrow> (Inr (), w1\<lparr>log_data := (log_data w1)(''seconds'' \<mapsto> secs)\<rparr>)))
      else (Inr (), py_print (''Unknown error: event reg '' @ str_int e) (polled bt w)))"
  unfolding fetch_data_def Let_def polled_event py_int_str_int polled_def [symmetric]
  by (simp add: fetch_query_def fetch_key_def wait_for_trig_def fields)

lemma run_arrives:
  "srq_event w = Some e \<Longrightarrow>
   start_meas_sample np bt w =
     (case fetch_data np (snd (sre (Some 0) (snd (wait_for_srq 10000 (armed bt w))))) of
        (Inl err, w4) \<Rightarrow> (Inl err, w4)
      | (Inr _, w4) \<Rightarrow>
          (Inr (), restore_registers (ptr_reg w) (ntr_reg w) (enab_reg w) w4))"
  by (simp add: start_meas_sample_armed wait_for_srq_armed_arrives)

lemma run_unexpected:
  "srq_event w = Some e \<Longrightarrow> e AND 32 = 0 \<Longrightarrow>
   start_meas_sample np bt w =
     (Inr (), restore_registers (ptr_reg w) (ntr_reg w) (enab_reg w)
                (py_print (''Unknown error: event reg '' @ str_int e) (polled bt w)))"
  by (simp add: run_arrives [of w e] fetch_data_polled [of w e])

lemma fetch_query_cases:
  "fetch_query s = ''FETC:ARR:CURR?'' \<or> fetch_query s = ''FETC:ARR:VOLT?''
   \<or> fetch_query s = ''FETC:ARR:DVM?''"
  by (simp add: fetch_query_def)

lemma bus_query_fetch:
  "bus_query (fetch_query s) w =
     (reply w (fetch_query s), w\<lparr>trace := trace w @ [Query (fetch_query s)]\<rparr>)"
  using fetch_query_cases [of s]
  by (elim disjE) (simp_all add: bus_query_def)

lemma fetch_array_fetch_query:
  "fetch_array np (fetch_query s) key w =
     (case np_array_f np (split_on CHR '','' (reply w (fetch_query s))) of
        Inl err \<Rightarrow> (Inl err, w\<lparr>trace := trace w @ [Query (fetch_query s)]\<rparr>)
      | Inr arr \<Rightarrow>
          (Inr (), w\<lparr>trace := trace w @ [Query (fetch_query s)],
                     log_data := (log_data w)(key \<mapsto> arr)\<rparr>))"
  by (simp add: fetch_array_def bus_query_fetch split: sum.splits)

lemma fetch_data_ready:
  assumes "srq_event w = Some e" and "e AND 32 \<noteq> 0"
  shows
   "fetch_data np (snd (sre (Some 0) (snd (wait_for_srq 10000 (armed bt w))))) =
     (case np_array_f np (split_on CHR '','' (reply w (fetch_query (trig_sense w)))) of
        Inl err \<Rightarrow>
          (Inl err,
           (polled bt w)\<lparr>trace := trace (polled bt w) @ [Query (fetch_query (trig_sense w))]\<rparr>)
      | Inr arr \<Rightarrow>
          (case np_arange_secs np (log_integration_time w) (log_sample_points w) of
             Inl err \<Rightarrow>
               (Inl err,
                (polled bt w)\<lparr>trace := trace (polled bt w) @ [Query (fetch_query (trig_sense w))],
                              log_data := [fetch_key (trig_sense w) \<mapsto> arr]\<rparr>)
           | Inr secs \<Rightarrow>
               (Inr (),
                (polled bt w)\<lparr>trace := trace (polled bt w) @ [Query (fetch_query (trig_sense w))],
                              log_data := [fetch_key (trig_sense w) \<mapsto> arr,
                                           ''seconds'' \<mapsto> secs]\<rparr>)))"
proof (cases "np_array_f np (split_on CHR '','' (reply w (fetch_query (trig_sense w))))")
  case (Inl err)
  with assms show ?thesis
    by (simp add: fetch_data_polled [of w e] fetch_array_fetch_query polled_fields [of w e])
next
  case arr: (Inr arr)
  show ?thesis
  proof (cases "np_arange_secs np (log_integration_time w) (log_sample_points w)")
    case (Inl err)
    with assms arr show ?thesis
      by (simp add: fetch_data_polled [of w e] fetch_array_fetch_query polled_fields [of w e])
  next
    case (Inr secs)
    with assms arr show ?thesis
      by (simp add: fetch_data_polled [of w e] fetch_array_fetch_query polled_fields [of w e])
  qed
qed

section \<open>The events of a run, by outcome\<close>

lemma run_events_timeout:
  "srq_event w = None \<Longrightarrow>
   run_events np bt w =
     save_events @ filter_events (ptr_reg w) (ntr_reg w) @ arm_events bt @ [WaitSRQ 10000]"
  by (simp add: run_events_def run_timeout fields)

lemma run_events_unexpected:
  "srq_event w = Some e \<Longrightarrow> e AND 32 = 0 \<Longrightarrow>
   run_events np bt w =
     save_events @ filter_events (ptr_reg w) (ntr_reg w) @ arm_events bt @ poll_events
     @ [Print (''Unknown error: event reg '' @ str_int e)]
     @ restore_events (ptr_reg w) (ntr_reg w) (enab_reg w)"
  by (simp add: run_events_def run_unexpected [of w e] py_print_def fields polled_fields [of w e])

lemma run_events_ready:
  "srq_event w = Some e \<Longrightarrow> e AND 32 \<noteq> 0 \<Longrightarrow>
   run_events np bt w =
     save_events @ filter_events (ptr_reg w) (ntr_reg w) @ arm_events bt @ poll_events
     @ [Query (fetch_query (trig_sense w))]
     @ (if fst (start_meas_sample np bt w) = Inr ()
        then restore_events (ptr_reg w) (ntr_reg w) (enab_reg w) else [])"
  by (simp add: run_events_def run_arrives [of w e] fetch_data_ready [of w e] fields
      polled_fields [of w e] split: sum.splits)

lemma run_ready_result:
  "srq_event w = Some e \<Longrightarrow> e AND 32 \<noteq> 0 \<Longrightarrow>
   fst (start_meas_sample np bt w) =
     (case np_array_f np (split_on CHR '','' (reply w (fetch_query (trig_sense w)))) of
        Inl err \<Rightarrow> Inl err
      | Inr arr \<Rightarrow>
          (case np_arange_secs np (log_integration_time w) (log_sample_points w) of
             Inl err \<Rightarrow> Inl err
           | Inr secs \<Rightarrow> Inr ()))"
  by (simp add: run_arrives [of w e] fetch_data_ready [of w e] split: sum.splits)

lemma run_ready_log_data:
  "srq_event w = Some e \<Longrightarrow> e AND 32 \<noteq> 0 \<Longrightarrow>
   log_data (snd (start_meas_sample np bt w)) =
     (case np_array_f np (split_on CHR '','' (reply w (fetch_query (trig_sense w)))) of
        Inl err \<Rightarrow> Map.empty
      | Inr arr \<Rightarrow>
          (case np_arange_secs np (log_integration_time w) (log_sample_points w) of
             Inl err \<Rightarrow> [fetch_key (trig_sense w) \<mapsto> arr]
           | Inr secs \<Rightarrow> [fetch_key (trig_sense w) \<mapsto> arr, ''seconds'' \<mapsto> secs]))"
  by (simp add: run_arrives [of w e] fetch_data_ready [of w e] fields
      polled_fields [of w e] split: sum.splits)

lemma run_returns_registers:
  assumes "fst (start_meas_sample np bt w) = Inr ()"
  shows "ptr_reg (snd (start_meas_sample np bt w)) =
           (if 0 \<le> ptr_reg w \<and> ptr_reg w \<le> 32767 then ptr_reg w
            else ptr_reg (armed bt w))"
    and "ntr_reg (snd (start_meas_sample np bt w)) =
           (if 0 \<le> ntr_reg w \<and> ntr_reg w \<le> 32767 then ntr_reg w
            else ntr_reg (armed bt w))"
    and "enab_reg (snd (start_meas_sample np bt w)) =
           (if 0 \<le> enab_reg w \<and> enab_reg w \<le> 32767 then enab_reg w else 32)"
proof -
  from assms obtain e where e: "srq_event w = Some e"
    by (cases "srq_event w") (simp_all add: run_timeout)
  have "ptr_reg (snd (start_meas_sample np bt w)) =
           (if 0 \<le> ptr_reg w \<and> ptr_reg w \<le> 32767 then ptr_reg w
            else ptr_reg (armed bt w))
      \<and> ntr_reg (snd (start_meas_sample np bt w)) =
           (if 0 \<le> ntr_reg w \<and> ntr_reg w \<le> 32767 then ntr_reg w
            else ntr_reg (armed bt w))
      \<and> enab_reg (snd (start_meas_sample np bt w)) =
           (if 0 \<le> enab_reg w \<and> enab_reg w \<le> 32767 then enab_reg w else 32)"
  proof (cases "e AND 32 = 0")
    case True
    with e show ?thesis
      by (simp add: run_unexpected [of w e] py_print_def restore_registers_fields
          polled_fields [of w e])
  next
    case False
    with e assms show ?thesis
      by (simp add: run_arrives [of w e] fetch_data_ready [of w e] restore_registers_fields
          polled_fields [of w e] split: sum.splits)
  qed
  then show "ptr_reg (snd (start_meas_sample np bt w)) =
           (if 0 \<le> ptr_reg w \<and> ptr_reg w \<le> 32767 then ptr_reg w
            else ptr_reg (armed bt w))"
    and "ntr_reg (snd (start_meas_sample np bt w)) =
           (if 0 \<le> ntr_reg w \<and> ntr_reg w \<le> 32767 then ntr_reg w
            else ntr_reg (armed bt w))"
    and "enab_reg (snd (start_meas_sample np bt w)) =
           (if 0 \<le> enab_reg w \<and> enab_reg w \<le> 32767 then enab_reg w else 32)"
    by simp_all
qed

lemma run_returns_events:
  assumes "fst (start_meas_sample np bt w) = Inr ()"
  shows "suffix (restore_events (ptr_reg w) (ntr_reg w) (enab_reg w)) (run_events np bt w)"
proof -
  from assms obtain e where e: "srq_event w = Some e"
    by (cases "srq_event w") (simp_all add: run_timeout)
  show ?thesis
  proof (cases "e AND 32 = 0")
    case True
    show ?thesis
      by (rule suffixI [where zs = "save_events @ filter_events (ptr_reg w) (ntr_reg w)
            @ arm_events bt @ poll_events @ [Print (''Unknown error: event reg '' @ str_int e)]"])
         (simp add: run_events_unexpected [OF e True])
  next
    case False
    show ?thesis
      by (rule suffixI [where zs = "save_events @ filter_events (ptr_reg w) (ntr_reg w)
            @ arm_events bt @ poll_events @ [Query (fetch_query (trig_sense w))]"])
         (simp add: run_events_ready [OF e False] assms)
  qed
qed

section \<open>The example inputs\<close>

lemma example_world_fields:
  "ptr_reg (example_world p n e s sense) = p"
  "ntr_reg (example_world p n e s sense) = n"
  "enab_reg (example_world p n e s sense) = e"
  "sre_reg (example_world p n e s sense) = 0"
  "oper_event (example_world p n e s sense) = 0"
  "srq_event (example_world p n e s sense) = s"
  "reply (example_world p n e s sense) q = ''1.0,2.5,-3.25''"
  "trace (example_world p n e s sense) = []"
  "trig_sense (example_world p n e s sense) = sense"
  "log_integration_time (example_world p n e s sense) = ''0.002''"
  "log_sample_points (example_world p n e s sense) = ''5''"
  "log_data (example_world p n e s sense) = Map.empty"
  by (simp_all add: example_world_def)

lemma text_np_fields:
  "np_array_f text_np toks = Inr toks"
  "np_arange_secs text_np t n = Inr [t, n]"
  by (simp_all add: text_np_def)

lemma fetch_CURR:
  \<open>py_in ''CURR'' ''"CURR"''\<close>
  \<open>fetch_query ''CURR'' = ''FETC:ARR:CURR?''\<close>
  \<open>fetch_key ''CURR'' = ''current''\<close>
  by (simp_all add: fetch_query_def fetch_key_def)

lemma split_on_example:
  "split_on CHR '','' ''1.0,2.5,-3.25'' = [''1.0'', ''2.5'', ''-3.25'']"
  by simp

section \<open>The WTG bit\<close>

lemma and_32_bit: "(x::int) AND 32 \<noteq> 0 \<longleftrightarrow> bit x 5"
  using and_exp_eq_0_iff_not_bit [of x 5] by simp

lemma clear_32: "(x::int) AND 32 \<noteq> 0 \<Longrightarrow> x - 32 = x AND NOT 32"
proof -
  assume "x AND 32 \<noteq> 0"
  then have "bit x 5" by (simp add: and_32_bit)
  then have "NOT x AND 32 = 0"
    using and_exp_eq_0_iff_not_bit [of "NOT x" 5] by (simp add: bit_not_iff)
  then show ?thesis
    by (rule disjunctive_diff_eq_and_not)
qed

lemma set_32: "(x::int) AND 32 = 0 \<Longrightarrow> x + 32 = x OR 32"
  by (rule disjunctive_add_eq_or)

lemma clear_32_range:
  "0 \<le> (x::int) \<Longrightarrow> x \<le> 32767 \<Longrightarrow> x AND 32 \<noteq> 0 \<Longrightarrow> 0 \<le> x - 32 \<and> x - 32 \<le> 32767"
  using AND_lower [of x "NOT 32"] by (simp add: clear_32)

lemma set_32_range:
  "0 \<le> (x::int) \<Longrightarrow> x \<le> 32767 \<Longrightarrow> x AND 32 = 0 \<Longrightarrow> 0 \<le> x + 32 \<and> x + 32 \<le> 32767"
  using OR_upper [of x 15 32] by (simp add: set_32)

section \<open>Replaying events on the register store\<close>

lemma replay_append: "replay (xs @ ys) w = replay ys (replay xs w)"
  by (simp add: replay_def)

lemma replay_Nil: "replay [] w = w"
  by (simp add: replay_def)

lemma replay_Cons: "replay (ev # evs) w = replay evs (event_effect ev w)"
  by (simp add: replay_def)

lemma event_effect_keeps_enab:
  "written_to '':STAT:OPER:ENAB'' ev = None \<Longrightarrow> enab_reg (event_effect ev w) = enab_reg w"
  by (cases ev) (simp_all add: instr_apply_def instr_set_def split: option.splits if_splits)

lemma replay_keeps_enab:
  "\<forall>ev \<in> set evs. written_to '':STAT:OPER:ENAB'' ev = None \<Longrightarrow>
   enab_reg (replay evs w) = enab_reg w"
  by (induction evs arbitrary: w) (simp_all add: replay_Nil replay_Cons event_effect_keeps_enab)

lemma instr_apply_enab_32:
  "enab_reg (instr_apply '':STAT:OPER:ENAB 32'' w) = 32"
  using instr_apply_arg [of "'':STAT:OPER:ENAB''" 32 w]
  by (simp add: str_int_32 instr_set_def)

lemma written_to_window:
  "\<forall>ev \<in> set (tl (window_events bt e sense)). written_to '':STAT:OPER:ENAB'' ev = None"
  by (simp add: window_events_def arm_events_def poll_events_def scpi_split_def)

lemma hd_window: "hd (window_events bt e sense) = Write '':STAT:OPER:ENAB 32''"
  by (simp add: window_events_def arm_events_def)

lemma window_Cons:
  "window_events bt e sense = Write '':STAT:OPER:ENAB 32'' # tl (window_events bt e sense)"
  by (simp add: window_events_def arm_events_def)

lemma replay_window:
  assumes "0 < k"
  shows "enab_reg (replay (pre @ take k (window_events bt e sense)) w) = 32"
proof -
  obtain m where k: "k = Suc m" using assms by (cases k) auto
  have "take k (window_events bt e sense) =
          Write '':STAT:OPER:ENAB 32'' # take m (tl (window_events bt e sense))"
    by (subst window_Cons) (simp add: k)
  moreover have "\<forall>ev \<in> set (take m (tl (window_events bt e sense))).
                    written_to '':STAT:OPER:ENAB'' ev = None"
    using written_to_window [of bt e sense] by (meson in_set_takeD)
  ultimately show ?thesis
    by (simp add: replay_append replay_Cons replay_keeps_enab instr_apply_enab_32)
qed

lemma run_events_window:
  assumes "srq_event w = Some e" and "fst (start_meas_sample np bt w) = Inr ()"
  shows "run_events np bt w =
           (save_events @ filter_events (ptr_reg w) (ntr_reg w))
           @ window_events bt e (trig_sense w)
           @ restore_events (ptr_reg w) (ntr_reg w) (enab_reg w)"
proof (cases "e AND 32 = 0")
  case True
  with assms show ?thesis
    by (simp add: run_events_unexpected [of w e] window_events_def)
next
  case False
  with assms show ?thesis
    by (simp add: run_events_ready [of w e] window_events_def)
qed

lemma fetch_examples:
  \<open>py_in [] ''"CURR"''\<close>
  \<open>\<not> py_in ''"VOLT"'' ''"CURR"''\<close>
  \<open>py_in ''"VOLT"'' ''"VOLT"''\<close>
  \<open>\<not> py_in ''"DVM"'' ''"CURR"''\<close>
  \<open>\<not> py_in ''"DVM"'' ''"VOLT"''\<close>
  by simp_all

lemma written_to_reg16_other:
  "CHR '' '' \<notin> set hdr \<Longrightarrow> hdr \<noteq> '':STAT:OPER:ENAB'' \<Longrightarrow>
   \<forall>ev \<in> set (reg16_events hdr v). written_to '':STAT:OPER:ENAB'' ev = None"
  by (simp add: reg16_events_def scpi_split_arg)

lemma replay_reg16_other:
  "CHR '' '' \<notin> set hdr \<Longrightarrow> hdr \<noteq> '':STAT:OPER:ENAB'' \<Longrightarrow>
   enab_reg (replay (reg16_events hdr v) w) = enab_reg w"
  by (rule replay_keeps_enab) (rule written_to_reg16_other)

lemma replay_reg16_enab:
  "enab_reg (replay (reg16_events '':STAT:OPER:ENAB'' v) w) =
     (if 0 \<le> v \<and> v \<le> 32767 then v else enab_reg w)"
  using instr_apply_arg [of "'':STAT:OPER:ENAB''" v w]
  by (simp add: reg16_events_def replay_Cons replay_Nil instr_set_def)

text \<open>
  Replaying the events of a run that returns, on the initial register store, gives the
  enable register of the final state.
\<close>

lemma replay_run_enab:
  assumes "fst (start_meas_sample np bt w) = Inr ()"
  shows "enab_reg (replay (run_events np bt w) w) = enab_reg (snd (start_meas_sample np bt w))"
proof -
  from assms obtain e where e: "srq_event w = Some e"
    by (cases "srq_event w") (simp_all add: run_timeout)
  have len: "0 < length (window_events bt e (trig_sense w))"
    by (simp add: window_events_def)
  have "enab_reg (replay ((save_events @ filter_events (ptr_reg w) (ntr_reg w))
           @ take (length (window_events bt e (trig_sense w))) (window_events bt e (trig_sense w))) w)
          = 32"
    using len by (rule replay_window)
  then have mid: "enab_reg (replay ((save_events @ filter_events (ptr_reg w) (ntr_reg w))
                              @ window_events bt e (trig_sense w)) w) = 32"
    by simp
  have "enab_reg (replay (run_events np bt w) w) =
          (if 0 \<le> enab_reg w \<and> enab_reg w \<le> 32767 then enab_reg w else 32)"
    unfolding run_events_window [OF e assms] restore_events_def
    using mid
    by (simp add: replay_append [of _ "reg16_events '':STAT:OPER:ENAB'' (enab_reg w)"]
        replay_append [of _ "reg16_events '':STAT:OPER:NTR'' (ntr_reg w)"]
        replay_append [of _ "reg16_events '':STAT:OPER:PTR'' (ptr_reg w)"]
        replay_reg16_enab replay_reg16_other
        flip: append_assoc)
  then show ?thesis
    by (simp add: run_returns_registers(3) [OF assms])
qed

section \<open>The claims\<close>

subsection \<open>C8: the values the register accessors accept\<close>

text \<open>
  C8, as stated, says that every 16-bit unsigned value (0 to 65535) is accepted by the
  accessors of the operation status PTR, NTR and enable registers. It fails at 32768:
  called with that value on an instrument with no events yet, the enable accessor only
  prints the warning of the validator, sends no write, and the register keeps its value.
\<close>

theorem C8_uint16_counterexample:
  "(0::int) \<le> 32768 \<and> (32768::int) \<le> 65535
   \<and> trace (snd (opr_enable_reg (Some 32768) (example_world 0 0 0 None ''CURR'')))
       = [Print warning_16]
   \<and> enab_reg (snd (opr_enable_reg (Some 32768) (example_world 0 0 0 None ''CURR''))) = 0"
  by (simp add: opr_enable_reg_set example_world_def)

text \<open>
  C8, amended: the accepted write values of the three accessors are exactly the integers
  0 to 32767 (the range of \<^verbatim>\<open>register_16\<close>). For such a value the accessor sends the
  write \<^verbatim>\<open>header value\<close> and returns \<^verbatim>\<open>None\<close>; for every other value, 32768 to 65535
  included, it sends nothing and prints the warning.
\<close>

theorem C8_register_accessors:
  "opr_ptr_reg (Some v) w =
     (None, if 0 \<le> v \<and> v \<le> 32767
            then w\<lparr>ptr_reg := v,
                   trace := trace w @ [Write ('':STAT:OPER:PTR '' @ str_int v)]\<rparr>
            else w\<lparr>trace := trace w @ [Print warning_16]\<rparr>)
   \<and> opr_ntr_reg (Some v) w =
     (None, if 0 \<le> v \<and> v \<le> 32767
            then w\<lparr>ntr_reg := v,
                   trace := trace w @ [Write ('':STAT:OPER:NTR '' @ str_int v)]\<rparr>
            else w\<lparr>trace := trace w @ [Print warning_16]\<rparr>)
   \<and> opr_enable_reg (Some v) w =
     (None, if 0 \<le> v \<and> v \<le> 32767
            then w\<lparr>enab_reg := v,
                   trace := trace w @ [Write ('':STAT:OPER:ENAB '' @ str_int v)]\<rparr>
            else w\<lparr>trace := trace w @ [Print warning_16]\<rparr>)"
  by (simp add: prod_eq_iff accessor_set_result opr_ptr_reg_set opr_ntr_reg_set
      opr_enable_reg_set)

text \<open>C8, amended, at 32767 (accepted) and at 65535 (rejected).\<close>

theorem C8_register_accessors_witness:
  "trace (snd (opr_ptr_reg (Some 32767) (example_world 0 0 0 None ''CURR'')))
     = [Write '':STAT:OPER:PTR 32767'']
   \<and> ptr_reg (snd (opr_ptr_reg (Some 32767) (example_world 0 0 0 None ''CURR''))) = 32767
   \<and> trace (snd (opr_ptr_reg (Some 65535) (example_world 0 0 0 None ''CURR'')))
     = [Print warning_16]
   \<and> ptr_reg (snd (opr_ptr_reg (Some 65535) (example_world 0 0 0 None ''CURR''))) = 0"
  using C8_register_accessors [of 32767 "example_world 0 0 0 None ''CURR''"]
        C8_register_accessors [of 65535 "example_world 0 0 0 None ''CURR''"]
  by (simp add: example_world_def str_int_def digits_nat.simps digit_char_def)

subsection \<open>C1: the registers after a run that returns\<close>

text \<open>
  C1, as stated, speaks of every initial triple of register values and of every run that
  reaches one of the two branches. It fails when the enable register holds 40000 (a
  16-bit value): the run fetches the data and returns, but the restoring write of 40000
  is rejected by the validator, and the enable register is left at the 32 written during
  the run. It also fails from the registers (32, 0, 7) when the run reaches the
  data-ready branch and numpy rejects the fetched data: the exception leaves before the
  restoration, and the enable register is left at 32.
\<close>

theorem C1_restoration_counterexample:
  "fst (start_meas_sample text_np False (example_world 32 0 40000 (Some 32) ''CURR'')) = Inr ()
   \<and> enab_reg (example_world 32 0 40000 (Some 32) ''CURR'') = 40000
   \<and> enab_reg (snd (start_meas_sample text_np False
                       (example_world 32 0 40000 (Some 32) ''CURR''))) = 32
   \<and> fst (start_meas_sample failing_np False (example_world 32 0 7 (Some 32) ''CURR''))
        = Inl ValueError
   \<and> enab_reg (example_world 32 0 7 (Some 32) ''CURR'') = 7
   \<and> enab_reg (snd (start_meas_sample failing_np False
                       (example_world 32 0 7 (Some 32) ''CURR''))) = 32"
proof -
  have r: "fst (start_meas_sample text_np False (example_world 32 0 40000 (Some 32) ''CURR''))
             = Inr ()"
    using run_ready_result [of "example_world 32 0 40000 (Some 32) ''CURR''" 32 text_np False]
    by (simp add: example_world_fields text_np_fields)
  have s: "srq_event (example_world 32 0 7 (Some 32) ''CURR'') = Some 32"
    by (simp add: example_world_fields)
  have f: "start_meas_sample failing_np False (example_world 32 0 7 (Some 32) ''CURR'') =
             (Inl ValueError,
              (polled False (example_world 32 0 7 (Some 32) ''CURR''))
                \<lparr>trace := trace (polled False (example_world 32 0 7 (Some 32) ''CURR''))
                            @ [Query (fetch_query ''CURR'')]\<rparr>)"
    using run_arrives [OF s, of failing_np False] fetch_data_ready [OF s, of failing_np False]
    by (simp add: example_world_fields failing_np_def)
  show ?thesis
    using r run_returns_registers(3) [OF r]
    by (simp add: f polled_fields [OF s] example_world_fields)
qed

text \<open>
  C1, amended: for every initial triple of register values between 0 and 32767 (the
  values \<^verbatim>\<open>register_16\<close> accepts), after a run that returns normally, through the
  data-ready branch or the unexpected-event branch, the last three events of the run are
  the writes of the three saved values, and the three registers hold exactly their
  initial values.
\<close>

theorem C1_registers_restored:
  assumes "0 \<le> ptr_reg w \<and> ptr_reg w \<le> 32767"
    and "0 \<le> ntr_reg w \<and> ntr_reg w \<le> 32767"
    and "0 \<le> enab_reg w \<and> enab_reg w \<le> 32767"
    and "fst (start_meas_sample np bus_triggered w) = Inr ()"
  shows "ptr_reg (snd (start_meas_sample np bus_triggered w)) = ptr_reg w
    \<and> ntr_reg (snd (start_meas_sample np bus_triggered w)) = ntr_reg w
    \<and> enab_reg (snd (start_meas_sample np bus_triggered w)) = enab_reg w
    \<and> suffix [Write ('':STAT:OPER:PTR '' @ str_int (ptr_reg w)),
               Write ('':STAT:OPER:NTR '' @ str_int (ntr_reg w)),
               Write ('':STAT:OPER:ENAB '' @ str_int (enab_reg w))]
         (run_events np bus_triggered w)"
  using assms run_returns_registers [OF assms(4)] run_returns_events [OF assms(4)]
  by (simp add: restore_events_def reg16_events_def)

text \<open>C1, amended, on a data-ready run and on an unexpected-event run from (32, 0, 7).\<close>

theorem C1_registers_restored_witness:
  "fst (start_meas_sample text_np False (example_world 32 0 7 (Some 32) ''CURR'')) = Inr ()
   \<and> ptr_reg (snd (start_meas_sample text_np False (example_world 32 0 7 (Some 32) ''CURR''))) = 32
   \<and> ntr_reg (snd (start_meas_sample text_np False (example_world 32 0 7 (Some 32) ''CURR''))) = 0
   \<and> enab_reg (snd (start_meas_sample text_np False (example_world 32 0 7 (Some 32) ''CURR''))) = 7
   \<and> fst (start_meas_sample text_np False (example_world 32 0 7 (Some 0) ''CURR'')) = Inr ()
   \<and> ptr_reg (snd (start_meas_sample text_np False (example_world 32 0 7 (Some 0) ''CURR''))) = 32
   \<and> ntr_reg (snd (start_meas_sample text_np False (example_world 32 0 7 (Some 0) ''CURR''))) = 0
   \<and> enab_reg (snd (start_meas_sample text_np False (example_world 32 0 7 (Some 0) ''CURR''))) = 7"
proof -
  have ready: "fst (start_meas_sample text_np False (example_world 32 0 7 (Some 32) ''CURR''))
                 = Inr ()"
    using run_ready_result [of "example_world 32 0 7 (Some 32) ''CURR''" 32 text_np False]
    by (simp add: example_world_fields text_np_fields)
  have unexpected: "fst (start_meas_sample text_np False (example_world 32 0 7 (Some 0) ''CURR''))
                 = Inr ()"
    using run_unexpected [of "example_world 32 0 7 (Some 0) ''CURR''" 0 text_np False]
    by (simp add: example_world_fields)
  show ?thesis
    using ready unexpected
      C1_registers_restored [of "example_world 32 0 7 (Some 32) ''CURR''" text_np False]
      C1_registers_restored [of "example_world 32 0 7 (Some 0) ''CURR''" text_np False]
    by (simp add: example_world_fields)
qed

subsection \<open>C2: a timeout of the wait for the service request\<close>

text \<open>
  C2: when the wait for the service request times out, the call ends with that error,
  \<^verbatim>\<open>log_data\<close> has no key, and nothing is sent after the wait: the registers are not
  restored, and the enable register is left at 32 and the service request enable
  register at 128.
\<close>

theorem C2_timeout_propagates:
  assumes "srq_event w = None"
  shows "fst (start_meas_sample np bus_triggered w) = Inl VisaIOError
    \<and> log_data (snd (start_meas_sample np bus_triggered w)) = Map.empty
    \<and> run_events np bus_triggered w =
         save_events @ filter_events (ptr_reg w) (ntr_reg w) @ arm_events bus_triggered
         @ [WaitSRQ 10000]
    \<and> enab_reg (snd (start_meas_sample np bus_triggered w)) = 32
    \<and> sre_reg (snd (start_meas_sample np bus_triggered w)) = 128"
  using assms
  by (simp add: run_events_timeout run_timeout armed_fields)

text \<open>C2 on an instrument with registers (32, 0, 7) that never requests service.\<close>

theorem C2_timeout_propagates_witness:
  "srq_event (example_world 32 0 7 None ''CURR'') = None
   \<and> fst (start_meas_sample text_np True (example_world 32 0 7 None ''CURR'')) = Inl VisaIOError
   \<and> log_data (snd (start_meas_sample text_np True (example_world 32 0 7 None ''CURR'')))
        = Map.empty
   \<and> run_events text_np True (example_world 32 0 7 None ''CURR'') =
        [Query ''STAT:OPER?'', Query '':STAT:OPER:PTR?'', Query '':STAT:OPER:NTR?'',
         Query '':STAT:OPER:ENAB?'', Write '':STAT:OPER:PTR 0'', Write '':STAT:OPER:NTR 32'',
         Write '':STAT:OPER:ENAB 32'', Write ''*SRE 128'', Write ''*WAI'',
         Write ''INIT:NAME ACQ'', Write ''TRIG:ACQ'', WaitSRQ 10000]
   \<and> enab_reg (snd (start_meas_sample text_np True (example_world 32 0 7 None ''CURR''))) = 32
   \<and> enab_reg (example_world 32 0 7 None ''CURR'') = 7"
  using C2_timeout_propagates [of "example_world 32 0 7 None ''CURR''" text_np True]
  by (simp add: example_world_fields save_events_def filter_events_def arm_events_def
      reg16_events_def str_int_0 str_int_32)

subsection \<open>C6: sense CURR and a trigger that fired\<close>

text \<open>
  C6: with the sense \<^verbatim>\<open>CURR\<close> and the WTG bit set in the event register read after the
  wait, the run sends the query \<^verbatim>\<open>FETC:ARR:CURR?\<close> (and no other fetch), and when it
  returns normally the keys of \<^verbatim>\<open>log_data\<close> are exactly "current" and "seconds", with no
  "voltage" key. It returns normally whenever numpy builds both arrays.
\<close>

theorem C6_current_fetch:
  assumes "trig_sense w = ''CURR''" and "srq_event w = Some e" and "e AND 32 \<noteq> 0"
  shows "run_events np bus_triggered w =
           save_events @ filter_events (ptr_reg w) (ntr_reg w) @ arm_events bus_triggered
           @ poll_events @ [Query ''FETC:ARR:CURR?'']
           @ (if fst (start_meas_sample np bus_triggered w) = Inr ()
              then restore_events (ptr_reg w) (ntr_reg w) (enab_reg w) else [])
    \<and> (fst (start_meas_sample np bus_triggered w) = Inr () \<longrightarrow>
          dom (log_data (snd (start_meas_sample np bus_triggered w))) = {''current'', ''seconds''}
        \<and> log_data (snd (start_meas_sample np bus_triggered w)) ''voltage'' = None)
    \<and> (\<forall>arr secs.
          np_array_f np (split_on CHR '','' (reply w ''FETC:ARR:CURR?'')) = Inr arr
          \<longrightarrow> np_arange_secs np (log_integration_time w) (log_sample_points w) = Inr secs
          \<longrightarrow> fst (start_meas_sample np bus_triggered w) = Inr ()
            \<and> log_data (snd (start_meas_sample np bus_triggered w)) =
                 [''current'' \<mapsto> arr, ''seconds'' \<mapsto> secs])"
  using assms run_events_ready [of w e np bus_triggered]
  by (auto simp add: run_ready_result [of w e] run_ready_log_data [of w e] fetch_CURR
      split: sum.splits)

text \<open>C6 on the scenario of the specification: registers (32, 0, 0), sense CURR.\<close>

theorem C6_current_fetch_witness:
  "trig_sense (example_world 32 0 0 (Some 32) ''CURR'') = ''CURR''
   \<and> srq_event (example_world 32 0 0 (Some 32) ''CURR'') = Some 32 \<and> (32::int) AND 32 \<noteq> 0
   \<and> fst (start_meas_sample text_np False (example_world 32 0 0 (Some 32) ''CURR'')) = Inr ()
   \<and> run_events text_np False (example_world 32 0 0 (Some 32) ''CURR'') =
        [Query ''STAT:OPER?'', Query '':STAT:OPER:PTR?'', Query '':STAT:OPER:NTR?'',
         Query '':STAT:OPER:ENAB?'', Write '':STAT:OPER:PTR 0'', Write '':STAT:OPER:NTR 32'',
         Write '':STAT:OPER:ENAB 32'', Write ''*SRE 128'', Write ''*WAI'',
         Write ''INIT:NAME ACQ'', WaitSRQ 10000, Write ''*SRE 0'', Query ''STAT:OPER?'',
         Query ''FETC:ARR:CURR?'',
         Write '':STAT:OPER:PTR 32'', Write '':STAT:OPER:NTR 0'', Write '':STAT:OPER:ENAB 0'']
   \<and> dom (log_data (snd (start_meas_sample text_np False
                            (example_world 32 0 0 (Some 32) ''CURR''))))
        = {''current'', ''seconds''}
   \<and> log_data (snd (start_meas_sample text_np False (example_world 32 0 0 (Some 32) ''CURR'')))
        = [''current'' \<mapsto> [''1.0'', ''2.5'', ''-3.25''], ''seconds'' \<mapsto> [''0.002'', ''5'']]"
  using C6_current_fetch [of "example_world 32 0 0 (Some 32) ''CURR''" 32 text_np False]
  by (auto simp add: example_world_fields text_np_fields split_on_example save_events_def
      filter_events_def arm_events_def poll_events_def restore_events_def reg16_events_def
      str_int_0 str_int_32)

subsection \<open>C7: the order of report and restoration\<close>

text \<open>
  C7, as stated, says that on the unexpected-event branch the registers are restored
  before the condition is reported. The report is the console message, and it is printed
  before the three restoring writes, as the events of this run show.
\<close>

theorem C7_report_then_restore_counterexample:
  "run_events text_np False (example_world 32 0 0 (Some 0) ''CURR'') =
     [Query ''STAT:OPER?'', Query '':STAT:OPER:PTR?'', Query '':STAT:OPER:NTR?'',
      Query '':STAT:OPER:ENAB?'', Write '':STAT:OPER:PTR 0'', Write '':STAT:OPER:NTR 32'',
      Write '':STAT:OPER:ENAB 32'', Write ''*SRE 128'', Write ''*WAI'',
      Write ''INIT:NAME ACQ'', WaitSRQ 10000, Write ''*SRE 0'', Query ''STAT:OPER?'',
      Print ''Unknown error: event reg 0'',
      Write '':STAT:OPER:PTR 32'', Write '':STAT:OPER:NTR 0'', Write '':STAT:OPER:ENAB 0'']"
  using run_events_unexpected [of "example_world 32 0 0 (Some 0) ''CURR''" 0 text_np False]
  by (simp add: example_world_fields save_events_def filter_events_def arm_events_def
      poll_events_def restore_events_def reg16_events_def str_int_0 str_int_32)

text \<open>
  C7, amended: on the unexpected-event branch (the event register read after the wait
  has the WTG bit clear) the message \<^verbatim>\<open>Unknown error: event reg ...\<close> is printed first,
  the restoration step is executed right after it, and then the call returns normally.
\<close>

theorem C7_report_then_restore:
  assumes "srq_event w = Some e" and "e AND 32 = 0"
  shows "fst (start_meas_sample np bus_triggered w) = Inr ()
    \<and> run_events np bus_triggered w =
         save_events @ filter_events (ptr_reg w) (ntr_reg w) @ arm_events bus_triggered
         @ poll_events
         @ [Print (''Unknown error: event reg '' @ str_int e)]
         @ restore_events (ptr_reg w) (ntr_reg w) (enab_reg w)"
  using assms
  by (simp add: run_events_unexpected run_unexpected [of w e])

text \<open>C7, amended, on registers (32, 0, 0) with an event register of 0.\<close>

theorem C7_report_then_restore_witness:
  "srq_event (example_world 32 0 0 (Some 0) ''CURR'') = Some 0 \<and> (0::int) AND 32 = 0
   \<and> fst (start_meas_sample text_np False (example_world 32 0 0 (Some 0) ''CURR'')) = Inr ()
   \<and> run_events text_np False (example_world 32 0 0 (Some 0) ''CURR'') =
        save_events @ filter_events 32 0 @ arm_events False @ poll_events
        @ [Print ''Unknown error: event reg 0'']
        @ restore_events 32 0 0"
  using C7_report_then_restore [of "example_world 32 0 0 (Some 0) ''CURR''" 0 text_np False]
  by (simp add: example_world_fields str_int_0)

subsection \<open>C9: the result of a run\<close>

text \<open>
  C9: the method itself returns nothing; its result for the caller is \<^verbatim>\<open>log_data\<close>.
  On the unexpected-event branch the run returns with an empty mapping. When the data
  is ready and numpy builds the two arrays, the run returns with the mapping of the
  channel name ("current" or "voltage") to the samples and of "seconds" to the time
  axis. In every run that returns, the keys are among these three names.
\<close>

theorem C9_output_mapping:
  assumes "srq_event w = Some e"
  shows "(e AND 32 = 0 \<longrightarrow>
            fst (start_meas_sample np bus_triggered w) = Inr ()
          \<and> log_data (snd (start_meas_sample np bus_triggered w)) = Map.empty)
    \<and> (e AND 32 \<noteq> 0 \<longrightarrow>
         (\<forall>arr secs.
            np_array_f np (split_on CHR '','' (reply w (fetch_query (trig_sense w)))) = Inr arr
            \<longrightarrow> np_arange_secs np (log_integration_time w) (log_sample_points w) = Inr secs
            \<longrightarrow> fst (start_meas_sample np bus_triggered w) = Inr ()
              \<and> log_data (snd (start_meas_sample np bus_triggered w)) =
                   [fetch_key (trig_sense w) \<mapsto> arr, ''seconds'' \<mapsto> secs]))
    \<and> (fst (start_meas_sample np bus_triggered w) = Inr () \<longrightarrow>
          dom (log_data (snd (start_meas_sample np bus_triggered w))) \<subseteq>
            {''current'', ''voltage'', ''seconds''})"
proof (cases "e AND 32 = 0")
  case True
  with assms show ?thesis
    by (simp add: run_unexpected [of w e] py_print_def restore_registers_fields
        polled_fields [of w e])
next
  case False
  have "fetch_key (trig_sense w) = ''current'' \<or> fetch_key (trig_sense w) = ''voltage''"
    by (simp add: fetch_key_def)
  with assms False show ?thesis
    by (auto simp add: run_ready_result [of w e] run_ready_log_data [of w e] split: sum.splits)
qed

text \<open>C9 on a data-ready run and on an unexpected-event run.\<close>

theorem C9_output_mapping_witness:
  "srq_event (example_world 32 0 0 (Some 32) ''CURR'') = Some 32 \<and> (32::int) AND 32 \<noteq> 0
   \<and> fst (start_meas_sample text_np False (example_world 32 0 0 (Some 32) ''CURR'')) = Inr ()
   \<and> log_data (snd (start_meas_sample text_np False (example_world 32 0 0 (Some 32) ''CURR'')))
        = [''current'' \<mapsto> [''1.0'', ''2.5'', ''-3.25''], ''seconds'' \<mapsto> [''0.002'', ''5'']]
   \<and> srq_event (example_world 32 0 0 (Some 0) ''CURR'') = Some 0 \<and> (0::int) AND 32 = 0
   \<and> fst (start_meas_sample text_np False (example_world 32 0 0 (Some 0) ''CURR'')) = Inr ()
   \<and> log_data (snd (start_meas_sample text_np False (example_world 32 0 0 (Some 0) ''CURR'')))
        = Map.empty"
  using C9_output_mapping [of "example_world 32 0 0 (Some 32) ''CURR''" 32 text_np False]
        C9_output_mapping [of "example_world 32 0 0 (Some 0) ''CURR''" 0 text_np False]
  by (simp add: example_world_fields text_np_fields fetch_CURR split_on_example)

subsection \<open>C4: the enable register during the run\<close>

text \<open>
  C4: in a run that returns, the events are those before the write of the enable
  register, then the window, then the restoration. The window starts with the write of
  32 to the enable register and holds no other write to that register; and after each
  event of the window the enable register of the instrument holds exactly 32.
\<close>

theorem C4_enable_register_window:
  assumes "srq_event w = Some e" and "fst (start_meas_sample np bus_triggered w) = Inr ()"
  shows "run_events np bus_triggered w =
           (save_events @ filter_events (ptr_reg w) (ntr_reg w))
           @ window_events bus_triggered e (trig_sense w)
           @ restore_events (ptr_reg w) (ntr_reg w) (enab_reg w)
    \<and> hd (window_events bus_triggered e (trig_sense w)) = Write '':STAT:OPER:ENAB 32''
    \<and> (\<forall>ev \<in> set (tl (window_events bus_triggered e (trig_sense w))).
          written_to '':STAT:OPER:ENAB'' ev = None)
    \<and> (\<forall>k. 0 < k \<and> k \<le> length (window_events bus_triggered e (trig_sense w)) \<longrightarrow>
          enab_reg (replay ((save_events @ filter_events (ptr_reg w) (ntr_reg w))
                            @ take k (window_events bus_triggered e (trig_sense w))) w) = 32)"
  using run_events_window [OF assms] written_to_window hd_window replay_window
  by blast

text \<open>C4 on a data-ready run from registers (32, 0, 7), at the end of the window.\<close>

theorem C4_enable_register_window_witness:
  "srq_event (example_world 32 0 7 (Some 32) ''CURR'') = Some 32
   \<and> fst (start_meas_sample text_np False (example_world 32 0 7 (Some 32) ''CURR'')) = Inr ()
   \<and> run_events text_np False (example_world 32 0 7 (Some 32) ''CURR'') =
        [Query ''STAT:OPER?'', Query '':STAT:OPER:PTR?'', Query '':STAT:OPER:NTR?'',
         Query '':STAT:OPER:ENAB?'', Write '':STAT:OPER:PTR 0'', Write '':STAT:OPER:NTR 32'']
        @ [Write '':STAT:OPER:ENAB 32'', Write ''*SRE 128'', Write ''*WAI'',
           Write ''INIT:NAME ACQ'', WaitSRQ 10000, Write ''*SRE 0'', Query ''STAT:OPER?'',
           Query ''FETC:ARR:CURR?'']
        @ [Write '':STAT:OPER:PTR 32'', Write '':STAT:OPER:NTR 0'', Write '':STAT:OPER:ENAB 7'']
   \<and> enab_reg (replay ([Query ''STAT:OPER?'', Query '':STAT:OPER:PTR?'',
                          Query '':STAT:OPER:NTR?'', Query '':STAT:OPER:ENAB?'',
                          Write '':STAT:OPER:PTR 0'', Write '':STAT:OPER:NTR 32'']
                         @ take 8 [Write '':STAT:OPER:ENAB 32'', Write ''*SRE 128'',
                                   Write ''*WAI'', Write ''INIT:NAME ACQ'', WaitSRQ 10000,
                                   Write ''*SRE 0'', Query ''STAT:OPER?'',
                                   Query ''FETC:ARR:CURR?''])
                 (example_world 32 0 7 (Some 32) ''CURR'')) = 32"
proof -
  have r: "fst (start_meas_sample text_np False (example_world 32 0 7 (Some 32) ''CURR''))
             = Inr ()"
    using run_ready_result [of "example_world 32 0 7 (Some 32) ''CURR''" 32 text_np False]
    by (simp add: example_world_fields text_np_fields)
  have s: "srq_event (example_world 32 0 7 (Some 32) ''CURR'') = Some 32"
    by (simp add: example_world_fields)
  have seven: "str_int 7 = ''7''"
    by (simp add: str_int_def digits_nat.simps digit_char_def)
  have w: "window_events False 32 ''CURR'' =
             [Write '':STAT:OPER:ENAB 32'', Write ''*SRE 128'', Write ''*WAI'',
              Write ''INIT:NAME ACQ'', WaitSRQ 10000, Write ''*SRE 0'', Query ''STAT:OPER?'',
              Query ''FETC:ARR:CURR?'']"
    by (simp add: window_events_def arm_events_def poll_events_def fetch_CURR)
  have p: "save_events @ filter_events 32 0 =
             [Query ''STAT:OPER?'', Query '':STAT:OPER:PTR?'', Query '':STAT:OPER:NTR?'',
              Query '':STAT:OPER:ENAB?'', Write '':STAT:OPER:PTR 0'', Write '':STAT:OPER:NTR 32'']"
    by (simp add: save_events_def filter_events_def reg16_events_def str_int_0 str_int_32)
  have q: "restore_events 32 0 7 =
             [Write '':STAT:OPER:PTR 32'', Write '':STAT:OPER:NTR 0'', Write '':STAT:OPER:ENAB 7'']"
    by (simp add: restore_events_def reg16_events_def str_int_0 str_int_32 seven)
  note c4 = C4_enable_register_window [OF s r]
  have a: "run_events text_np False (example_world 32 0 7 (Some 32) ''CURR'') =
          (save_events @ filter_events 32 0) @ window_events False 32 ''CURR''
          @ restore_events 32 0 7"
    using c4 by (simp add: example_world_fields)
  have "\<forall>k. 0 < k \<and> k \<le> length (window_events False 32 ''CURR'') \<longrightarrow>
            enab_reg (replay ((save_events @ filter_events 32 0)
                              @ take k (window_events False 32 ''CURR''))
                       (example_world 32 0 7 (Some 32) ''CURR'')) = 32"
    using c4 by (simp add: example_world_fields)
  then have "0 < (8::nat) \<and> 8 \<le> length (window_events False 32 ''CURR'') \<longrightarrow>
            enab_reg (replay ((save_events @ filter_events 32 0)
                              @ take 8 (window_events False 32 ''CURR''))
                       (example_world 32 0 7 (Some 32) ''CURR'')) = 32"
    by (rule spec)
  then have b: "enab_reg (replay ((save_events @ filter_events 32 0)
                              @ take 8 (window_events False 32 ''CURR''))
                       (example_world 32 0 7 (Some 32) ''CURR'')) = 32"
    by (simp add: w)
  show ?thesis
    using a b r s unfolding w p q by simp
qed

subsection \<open>C5: the writes to the transition filters\<close>

text \<open>
  C5: whatever the saved values, the run starts with the four reads, then the call of
  the PTR accessor with \<open>ptr - 32\<close> only when the WTG bit is set in \<open>ptr\<close>, then the call
  of the NTR accessor with \<open>ntr + 32\<close> only when the bit is not set in \<open>ntr\<close>, then the
  write of the enable register; nothing else comes before that write. Subtracting 32
  clears the bit and adding 32 sets it; and for saved values in the range of the
  registers (0 to 32767) the accessor call is a write, not a rejection.
\<close>

theorem C5_edge_filter_writes:
  "prefix (save_events
           @ (if ptr_reg w AND 32 \<noteq> 0
              then reg16_events '':STAT:OPER:PTR'' (ptr_reg w - 32) else [])
           @ (if ntr_reg w AND 32 = 0
              then reg16_events '':STAT:OPER:NTR'' (ntr_reg w + 32) else [])
           @ [Write '':STAT:OPER:ENAB 32''])
          (run_events np bus_triggered w)
   \<and> (ptr_reg w AND 32 \<noteq> 0 \<longrightarrow> ptr_reg w - 32 = ptr_reg w AND NOT 32)
   \<and> (ntr_reg w AND 32 = 0 \<longrightarrow> ntr_reg w + 32 = ntr_reg w OR 32)
   \<and> (0 \<le> ptr_reg w \<and> ptr_reg w \<le> 32767 \<and> ptr_reg w AND 32 \<noteq> 0 \<longrightarrow>
        reg16_events '':STAT:OPER:PTR'' (ptr_reg w - 32) =
          [Write ('':STAT:OPER:PTR '' @ str_int (ptr_reg w - 32))])
   \<and> (0 \<le> ntr_reg w \<and> ntr_reg w \<le> 32767 \<and> ntr_reg w AND 32 = 0 \<longrightarrow>
        reg16_events '':STAT:OPER:NTR'' (ntr_reg w + 32) =
          [Write ('':STAT:OPER:NTR '' @ str_int (ntr_reg w + 32))])"
proof -
  have "\<exists>rest. run_events np bus_triggered w =
          (save_events @ filter_events (ptr_reg w) (ntr_reg w)
           @ [Write '':STAT:OPER:ENAB 32'']) @ rest"
  proof (cases "srq_event w")
    case None
    then show ?thesis
      by (simp add: run_events_timeout arm_events_def)
  next
    case (Some e)
    then show ?thesis
      by (cases "e AND 32 = 0")
         (simp_all add: run_events_unexpected [of w e] run_events_ready [of w e] arm_events_def)
  qed
  then have "prefix (save_events @ filter_events (ptr_reg w) (ntr_reg w)
                     @ [Write '':STAT:OPER:ENAB 32''])
               (run_events np bus_triggered w)"
    unfolding prefix_def by blast
  then show ?thesis
    using clear_32_range [of "ptr_reg w"] set_32_range [of "ntr_reg w"]
    by (simp add: filter_events_def clear_32 set_32 reg16_events_def)
qed

text \<open>C5 from registers (32, 0, 7), both filters written, and from (0, 32, 7), none.\<close>

theorem C5_edge_filter_writes_witness:
  "prefix [Query ''STAT:OPER?'', Query '':STAT:OPER:PTR?'', Query '':STAT:OPER:NTR?'',
           Query '':STAT:OPER:ENAB?'', Write '':STAT:OPER:PTR 0'', Write '':STAT:OPER:NTR 32'',
           Write '':STAT:OPER:ENAB 32'']
     (run_events text_np False (example_world 32 0 7 (Some 32) ''CURR''))
   \<and> prefix [Query ''STAT:OPER?'', Query '':STAT:OPER:PTR?'', Query '':STAT:OPER:NTR?'',
             Query '':STAT:OPER:ENAB?'', Write '':STAT:OPER:ENAB 32'']
       (run_events text_np False (example_world 0 32 7 (Some 32) ''CURR''))
   \<and> (32::int) - 32 = 32 AND NOT 32 \<and> (0::int) + 32 = 0 OR 32"
  using C5_edge_filter_writes [of "example_world 32 0 7 (Some 32) ''CURR''" text_np False]
        C5_edge_filter_writes [of "example_world 0 32 7 (Some 32) ''CURR''" text_np False]
  by (simp add: example_world_fields save_events_def reg16_events_def str_int_0 str_int_32)

subsection \<open>C10: the choice of the fetch\<close>

text \<open>
  C10: when the data is ready, the one fetch query of the run is chosen by two substring
  tests on the sense: \<^verbatim>\<open>FETC:ARR:CURR?\<close> when the sense occurs in \<^verbatim>\<open>"CURR"\<close> (the empty
  sense does), else \<^verbatim>\<open>FETC:ARR:VOLT?\<close> when it occurs in \<^verbatim>\<open>"VOLT"\<close>, else
  \<^verbatim>\<open>FETC:ARR:DVM?\<close>. The parsed data is stored under "current" in the first case and
  under "voltage" in the two others.
\<close>

theorem C10_fetch_selection:
  assumes \<open>srq_event w = Some e\<close> and \<open>e AND 32 \<noteq> 0\<close>
  shows \<open>run_events np bus_triggered w =
           save_events @ filter_events (ptr_reg w) (ntr_reg w) @ arm_events bus_triggered
           @ poll_events
           @ [Query (if py_in (trig_sense w) ''"CURR"'' then ''FETC:ARR:CURR?''
                     else if py_in (trig_sense w) ''"VOLT"'' then ''FETC:ARR:VOLT?''
                     else ''FETC:ARR:DVM?'')]
           @ (if fst (start_meas_sample np bus_triggered w) = Inr ()
              then restore_events (ptr_reg w) (ntr_reg w) (enab_reg w) else [])
    \<and> (\<forall>arr secs.
          np_array_f np
            (split_on CHR '',''
               (reply w (if py_in (trig_sense w) ''"CURR"'' then ''FETC:ARR:CURR?''
                         else if py_in (trig_sense w) ''"VOLT"'' then ''FETC:ARR:VOLT?''
                         else ''FETC:ARR:DVM?''))) = Inr arr
          \<longrightarrow> np_arange_secs np (log_integration_time w) (log_sample_points w) = Inr secs
          \<longrightarrow> fst (start_meas_sample np bus_triggered w) = Inr ()
            \<and> log_data (snd (start_meas_sample np bus_triggered w)) =
                 [(if py_in (trig_sense w) ''"CURR"'' then ''current'' else ''voltage'')
                    \<mapsto> arr,
                  ''seconds'' \<mapsto> secs])
    \<and> (py_in (trig_sense w) ''"CURR"'' \<longleftrightarrow> sublist (trig_sense w) ''"CURR"'')
    \<and> (py_in (trig_sense w) ''"VOLT"'' \<longleftrightarrow> sublist (trig_sense w) ''"VOLT"'')
    \<and> py_in [] ''"CURR"''\<close>
proof -
  have q: \<open>(if py_in (trig_sense w) ''"CURR"'' then ''FETC:ARR:CURR?''
            else if py_in (trig_sense w) ''"VOLT"'' then ''FETC:ARR:VOLT?''
            else ''FETC:ARR:DVM?'') = fetch_query (trig_sense w)\<close>
    by (simp add: fetch_query_def)
  have k: \<open>(if py_in (trig_sense w) ''"CURR"'' then ''current'' else ''voltage'')
             = fetch_key (trig_sense w)\<close>
    by (simp add: fetch_key_def)
  show ?thesis
    unfolding q k using assms
    by (auto simp add: run_events_ready [of w e] run_ready_result [of w e]
        run_ready_log_data [of w e] py_in_sublist split: sum.splits)
qed

text \<open>C10 for the empty sense, for \<^verbatim>\<open>"VOLT"\<close> and for \<^verbatim>\<open>"DVM"\<close>.\<close>

theorem C10_fetch_selection_witness:
  \<open>srq_event (example_world 32 0 7 (Some 32) []) = Some 32 \<and> (32::int) AND 32 \<noteq> 0
   \<and> py_in [] ''"CURR"''
   \<and> fst (start_meas_sample text_np False (example_world 32 0 7 (Some 32) [])) = Inr ()
   \<and> run_events text_np False (example_world 32 0 7 (Some 32) []) =
        save_events @ filter_events 32 0 @ arm_events False @ poll_events
        @ [Query ''FETC:ARR:CURR?''] @ restore_events 32 0 7
   \<and> log_data (snd (start_meas_sample text_np False (example_world 32 0 7 (Some 32) []))) =
        [''current'' \<mapsto> [''1.0'', ''2.5'', ''-3.25''], ''seconds'' \<mapsto> [''0.002'', ''5'']]
   \<and> run_events text_np False (example_world 32 0 7 (Some 32) ''"VOLT"'') =
        save_events @ filter_events 32 0 @ arm_events False @ poll_events
        @ [Query ''FETC:ARR:VOLT?''] @ restore_events 32 0 7
   \<and> log_data (snd (start_meas_sample text_np False (example_world 32 0 7 (Some 32) ''"VOLT"''))) =
        [''voltage'' \<mapsto> [''1.0'', ''2.5'', ''-3.25''], ''seconds'' \<mapsto> [''0.002'', ''5'']]
   \<and> run_events text_np False (example_world 32 0 7 (Some 32) ''"DVM"'') =
        save_events @ filter_events 32 0 @ arm_events False @ poll_events
        @ [Query ''FETC:ARR:DVM?''] @ restore_events 32 0 7
   \<and> log_data (snd (start_meas_sample text_np False (example_world 32 0 7 (Some 32) ''"DVM"''))) =
        [''voltage'' \<mapsto> [''1.0'', ''2.5'', ''-3.25''], ''seconds'' \<mapsto> [''0.002'', ''5'']]\<close>
  using C10_fetch_selection [of \<open>example_world 32 0 7 (Some 32) []\<close> 32 text_np False]
        C10_fetch_selection [of \<open>example_world 32 0 7 (Some 32) ''"VOLT"''\<close> 32 text_np False]
        C10_fetch_selection [of \<open>example_world 32 0 7 (Some 32) ''"DVM"''\<close> 32 text_np False]
  by (simp add: example_world_fields text_np_fields split_on_example fetch_examples)


end
